theory Spec2Isabelle
  imports Complex_Main
begin

section \<open>The Trinetra background coordinator (background.js)\<close>

text \<open>
  The service worker keeps one analysis result per tab, a set of URLs the user chose to
  proceed to, and reacts to messages and browser events. \<open>analyzeWithAI\<close> is an async
  function: it suspends at \<open>await getApiKey()\<close> and at \<open>await fetch(...)\<close>. The model is a
  deterministic step function over an explicit state; the two suspension points are
  pending tasks of the state, resumed by events of their own, so that other events can
  run in between, as in the service worker's event loop. Every step takes the value of
  \<open>Date.now()\<close> and returns the new state with what the handler sent out.

  The listeners for notification buttons, downloads and web requests read and write
  neither the results nor the set of URLs, and are left out.
\<close>

subsection \<open>Constants\<close>

definition ANALYSIS_CACHE_DURATION_MS :: int where
  "ANALYSIS_CACHE_DURATION_MS = 3 * 60 * 1000"

definition WHITELISTED_DOMAINS :: "string list" where
  "WHITELISTED_DOMAINS =
     [''google.com'', ''youtube.com'', ''gmail.com'',
      ''github.com'', ''stackoverflow.com'',
      ''developer.chrome.com'', ''developer.mozilla.org'',
      ''wikipedia.org'', ''medium.com'']"

subsection \<open>JavaScript values\<close>

text \<open>
  The values \<open>JSON.parse\<close> produces, and \<open>undefined\<close> (the result of reading a property
  that is not there). A number carries its numeric value; an object is the list of its
  own properties, each name once.
\<close>

datatype json =
    JUndef
  | JNull
  | JBool bool
  | JNum rat
  | JStr string
  | JArr "json list"
  | JObj "(string \<times> json) list"

text \<open>A thrown error is \<open>Inl\<close> of its message.\<close>

type_synonym 'a js = "string + 'a"

text \<open>The page data sent by content.js: the URL, and the other fields as one value.\<close>

record page_data =
  page_url :: string
  page_rest :: json

text \<open>
  What the platform provides and the repository does not define: the URL parser
  (\<open>None\<close> when \<open>new URL\<close> throws), the JSON parser (\<open>None\<close> for a SyntaxError), the
  conversions of a value that is not a string to a string and to a number (\<open>None\<close> for
  NaN), the formatting \<open>(v * 100).toFixed(0)\<close> of the confidence, the construction of the
  request payload (lines 132-147, whose helpers are regular expressions and URL
  resolution; \<open>None\<close> when it throws), the message of a TypeError (one message stands
  for all of them), and the methods \<open>toUpperCase\<close> and \<open>trim\<close> of \<open>String.prototype\<close>:
  which characters have an upper case, and which count as white space, is the
  platform's matter (the Unicode case mapping and white space), so the model assumes
  nothing about it.
\<close>

record platform =
  url_hostname :: "string \<Rightarrow> string option"
  json_parse :: "string \<Rightarrow> json option"
  to_text :: "json \<Rightarrow> string"
  to_number :: "json \<Rightarrow> rat option"
  percent :: "json \<Rightarrow> string"
  payload :: "page_data \<Rightarrow> string option"
  type_error :: string
  toUpperCase :: "string \<Rightarrow> string"
  trim :: "string \<Rightarrow> string"

fun truthy :: "json \<Rightarrow> bool" where
  "truthy JUndef = False"
| "truthy JNull = False"
| "truthy (JBool b) = b"
| "truthy (JNum q) = (q \<noteq> 0)"
| "truthy (JStr s) = (s \<noteq> [])"
| "truthy (JArr xs) = True"
| "truthy (JObj kvs) = True"

text \<open>String conversion, as in a template literal or a concatenation.\<close>

fun js_string :: "platform \<Rightarrow> json \<Rightarrow> string" where
  "js_string pf (JStr s) = s"
| "js_string pf v = to_text pf v"

text \<open>
  Reading one of the property names the code uses (none of them is inherited from a
  prototype): a TypeError on \<open>undefined\<close> and \<open>null\<close>, the own property of an object,
  \<open>undefined\<close> otherwise.
\<close>

fun get_prop :: "platform \<Rightarrow> string \<Rightarrow> json \<Rightarrow> json js" where
  "get_prop pf k JUndef = Inl (type_error pf)"
| "get_prop pf k JNull = Inl (type_error pf)"
| "get_prop pf k (JObj kvs) = Inr (case map_of kvs k of None \<Rightarrow> JUndef | Some v \<Rightarrow> v)"
| "get_prop pf k v = Inr JUndef"

text \<open>The element access \<open>v[0]\<close>.\<close>

fun index0 :: "platform \<Rightarrow> json \<Rightarrow> json js" where
  "index0 pf JUndef = Inl (type_error pf)"
| "index0 pf JNull = Inl (type_error pf)"
| "index0 pf (JArr xs) = Inr (case xs of [] \<Rightarrow> JUndef | x # _ \<Rightarrow> x)"
| "index0 pf (JStr s) = Inr (case s of [] \<Rightarrow> JUndef | c # _ \<Rightarrow> JStr [c])"
| "index0 pf (JObj kvs) = Inr (case map_of kvs ''0'' of None \<Rightarrow> JUndef | Some v \<Rightarrow> v)"
| "index0 pf v = Inr JUndef"

definition bind_js :: "'a js \<Rightarrow> ('a \<Rightarrow> 'b js) \<Rightarrow> 'b js" where
  "bind_js m f = (case m of Inl e \<Rightarrow> Inl e | Inr v \<Rightarrow> f v)"

subsection \<open>Strings\<close>

definition startsWith :: "string \<Rightarrow> string \<Rightarrow> bool" where
  "startsWith s p = (take (length p) s = p)"

definition endsWith :: "string \<Rightarrow> string \<Rightarrow> bool" where
  "endsWith s w = (length w \<le> length s \<and> drop (length s - length w) s = w)"

subsection \<open>getDomain and truncateText\<close>

text \<open>\<open>hostname.replace(/^www\./, '')\<close>\<close>

definition strip_www :: "string \<Rightarrow> string" where
  "strip_www h = (if startsWith h ''www.'' then drop 4 h else h)"

text \<open>\<open>None\<close> is the \<open>null\<close> returned when \<open>new URL(url)\<close> throws.\<close>

definition getDomain :: "platform \<Rightarrow> string \<Rightarrow> string option" where
  "getDomain pf u = map_option strip_www (url_hostname pf u)"

text \<open>The comparison \<open>text.length > maxLength\<close> for the \<open>length\<close> property of an object.\<close>

fun exceeds :: "platform \<Rightarrow> json \<Rightarrow> nat \<Rightarrow> bool" where
  "exceeds pf (JNum q) n = (q > of_nat n)"
| "exceeds pf JNull n = False"
| "exceeds pf JUndef n = False"
| "exceeds pf (JBool b) n = (b \<and> n < 1)"
| "exceeds pf v n = (case to_number pf v of None \<Rightarrow> False | Some q \<Rightarrow> q > of_nat n)"

text \<open>
  \<open>truncateText\<close> is also reached with values that are not strings (an explanation taken
  from the classifier's JSON): a value without a \<open>length\<close> above the bound is returned as
  it is, and one with such a \<open>length\<close> has no \<open>substring\<close>, which throws.
\<close>

fun truncateText :: "platform \<Rightarrow> json \<Rightarrow> nat \<Rightarrow> json js" where
  "truncateText pf (JStr s) maxLength =
     Inr (JStr (if length s > maxLength then take (maxLength - 3) s @ ''...'' else s))"
| "truncateText pf (JArr xs) maxLength =
     (if length xs > maxLength then Inl (type_error pf) else Inr (JArr xs))"
| "truncateText pf (JObj kvs) maxLength =
     (case map_of kvs ''length'' of
        None \<Rightarrow> Inr (JObj kvs)
      | Some l \<Rightarrow> if exceeds pf l maxLength then Inl (type_error pf) else Inr (JObj kvs))"
| "truncateText pf v maxLength = Inr (if truthy v then v else JStr [])"

subsection \<open>The state of the service worker\<close>

record verdict_record =
  url :: string
  status :: string
  explanation :: json
  timestamp :: int

text \<open>
  An entry of \<open>tabAnalysisResults\<close>: no property for the tab, the \<open>null\<close> the navigation
  listener writes, or the object \<open>updateTabStatus\<close> writes.
\<close>

datatype slot = Absent | Null | Rec verdict_record

text \<open>A suspended call of \<open>analyzeWithAI(pageData, tabId)\<close>, with what its closure holds.\<close>

datatype task =
    AwaitKey nat page_data
  | AwaitFetch nat page_data

record state =
  tabAnalysisResults :: "nat \<Rightarrow> slot"
  sessionProceededUrls :: "string set"
  apiKey :: "string option"
  pending :: "task list"

definition initial_state :: state where
  "initial_state =
     \<lparr>tabAnalysisResults = (\<lambda>t. Absent), sessionProceededUrls = {},
      apiKey = None, pending = []\<rparr>"

text \<open>What a handler sends out.\<close>

datatype status_reply = Stored verdict_record | Placeholder string string

datatype response =
    RespStatus string
  | RespTabStatus status_reply
  | RespSuccess bool "verdict_record option"

datatype severity = Danger | Suspicious

datatype effect =
    SendResponse response
  | UPDATE_POPUP_DATA verdict_record
  | Notification nat severity string
  | StorageGet
  | Fetch string string
  | GoBack nat

subsection \<open>updateTabStatus\<close>

definition notification_message :: "string \<Rightarrow> string \<Rightarrow> string \<Rightarrow> string" where
  "notification_message domainName level details =
     ''Page: '' @ domainName @ [CHR 0x0A] @ ''Trinetra AI flags this site as '' @ level
       @ ''.'' @ [CHR 0x0A] @ ''Details: '' @ details"

text \<open>
  The result is the new state, what was sent, and the message of the error thrown
  after the record was written, if \<open>truncateText\<close> throws on the explanation.
\<close>

definition updateTabStatus ::
  "platform \<Rightarrow> int \<Rightarrow> nat \<Rightarrow> string \<Rightarrow> string \<Rightarrow> json \<Rightarrow> state
     \<Rightarrow> state \<times> effect list \<times> string option" where
  "updateTabStatus pf now tabId u st ex s =
     (let r = \<lparr>url = u, status = st, explanation = ex, timestamp = now\<rparr>;
          s' = s\<lparr>tabAnalysisResults := (tabAnalysisResults s)(tabId := Rec r)\<rparr>;
          domainName = (case getDomain pf u of
                          None \<Rightarrow> u
                        | Some d \<Rightarrow> if d \<noteq> [] then d else u)
      in if st = ''DANGEROUS'' then
           (case truncateText pf ex 100 of
              Inl e \<Rightarrow> (s', [UPDATE_POPUP_DATA r], Some e)
            | Inr t \<Rightarrow>
                (s', [UPDATE_POPUP_DATA r,
                      Notification tabId Danger
                        (notification_message domainName ''DANGEROUS'' (js_string pf t))],
                 None))
         else if st = ''SUSPICIOUS'' then
           (case truncateText pf ex 100 of
              Inl e \<Rightarrow> (s', [UPDATE_POPUP_DATA r], Some e)
            | Inr t \<Rightarrow>
                (s', [UPDATE_POPUP_DATA r,
                      Notification tabId Suspicious
                        (notification_message domainName ''SUSPICIOUS'' (js_string pf t))],
                 None))
         else (s', [UPDATE_POPUP_DATA r], None))"

subsection \<open>analyzeWithAI: the classifier's response\<close>

text \<open>The outcome of \<open>fetch\<close>: a rejection (also of a body read), or a response.\<close>

datatype fetch_outcome =
    Rejected string
  | Response bool string string

definition typeof_object :: "json \<Rightarrow> bool" where
  "typeof_object v = (case v of JNull \<Rightarrow> True | JArr xs \<Rightarrow> True | JObj kvs \<Rightarrow> True | _ \<Rightarrow> False)"

text \<open>
  Each branch of the \<open>try\<close> block ends in one call of \<open>updateTabStatus\<close>; the functions
  below compute the status and the explanation of that call, or the error thrown before.
\<close>

text \<open>
  Lines 205-216. When the body is not JSON, \<open>response.text()\<close> is called on a body that
  \<open>response.json()\<close> has consumed, and rejects.
\<close>

definition not_ok_verdict :: "platform \<Rightarrow> string \<Rightarrow> string \<Rightarrow> (string \<times> json) js" where
  "not_ok_verdict pf statusText body =
     (case json_parse pf body of
        None \<Rightarrow> Inl (type_error pf)
      | Some errorBody \<Rightarrow>
          (let errorMsg = ''Gemini API request failed: '' @ statusText in
           if typeof_object errorBody then
             bind_js (get_prop pf ''error'' errorBody) (\<lambda>err.
               if truthy err then
                 bind_js (get_prop pf ''message'' err) (\<lambda>m.
                   Inr (''ERROR'',
                        JStr (if truthy m then errorMsg @ '' - '' @ js_string pf m
                              else errorMsg)))
               else Inr (''ERROR'', JStr errorMsg))
           else
             (case errorBody of
                JStr b \<Rightarrow>
                  bind_js (truncateText pf errorBody 150) (\<lambda>t.
                    Inr (''ERROR'', JStr (errorMsg @ '' - '' @ js_string pf t)))
              | _ \<Rightarrow> Inr (''ERROR'', JStr errorMsg))))"

text \<open>The condition of line 228: the text of the first part, when every step is truthy.\<close>

definition candidate_text :: "platform \<Rightarrow> json \<Rightarrow> json option js" where
  "candidate_text pf resultJson =
     bind_js (get_prop pf ''candidates'' resultJson) (\<lambda>cs.
       if \<not> truthy cs then Inr None
       else bind_js (index0 pf cs) (\<lambda>c0.
         bind_js (get_prop pf ''content'' c0) (\<lambda>content.
           if \<not> truthy content then Inr None
           else bind_js (get_prop pf ''parts'' content) (\<lambda>parts.
             if \<not> truthy parts then Inr None
             else bind_js (index0 pf parts) (\<lambda>p0.
               bind_js (get_prop pf ''text'' p0) (\<lambda>text.
                 Inr (if truthy text then Some text else None)))))))"

definition incomplete :: "(string \<times> json) js" where
  "incomplete = Inr (''ERROR'', JStr ''Trinetra AI response structure incomplete.'')"

text \<open>Lines 244-247.\<close>

definition recognized_explanation :: "platform \<Rightarrow> json \<Rightarrow> json \<Rightarrow> json js" where
  "recognized_explanation pf aiAnalysis ex =
     bind_js (get_prop pf ''confidence_score'' aiAnalysis) (\<lambda>cs.
       bind_js (get_prop pf ''primary_threat_type'' aiAnalysis) (\<lambda>ptt.
         (let e1 = (if truthy cs
                    then JStr (js_string pf ex @ '' (Confidence: '' @ percent pf cs @ ''%)'')
                    else ex);
              e2 = (if truthy ptt \<and> ptt \<noteq> JStr ''N/A''
                    then JStr (js_string pf e1 @ '' [Threat: '' @ js_string pf ptt @ '']'')
                    else e1)
          in Inr e2)))"

text \<open>Lines 229-254, from the text of the first part on.\<close>

definition analysis_verdict :: "platform \<Rightarrow> json \<Rightarrow> (string \<times> json) js" where
  "analysis_verdict pf aiResponseText =
     (case json_parse pf (js_string pf aiResponseText) of
        None \<Rightarrow>
          bind_js (truncateText pf aiResponseText 100) (\<lambda>t.
            Inr (''ERROR'',
                 JStr (''Trinetra AI response content format error. Details: ''
                        @ js_string pf t)))
      | Some aiAnalysis \<Rightarrow>
          if \<not> truthy aiAnalysis then incomplete
          else bind_js (get_prop pf ''status'' aiAnalysis) (\<lambda>st.
            if \<not> truthy st then incomplete
            else bind_js (get_prop pf ''explanation'' aiAnalysis) (\<lambda>ex.
              if \<not> truthy ex then incomplete
              else (case st of
                      JStr s \<Rightarrow>
                        (let normalizedStatus = trim pf (toUpperCase pf s) in
                         if normalizedStatus \<in> set [''SAFE'', ''SUSPICIOUS'', ''DANGEROUS'']
                         then bind_js (recognized_explanation pf aiAnalysis ex)
                                (\<lambda>e. Inr (normalizedStatus, e))
                         else Inr (''SUSPICIOUS'',
                                   JStr (''Trinetra AI provided an unknown status: '' @ s
                                          @ ''. Explanation: '' @ js_string pf ex)))
                    | _ \<Rightarrow> Inl (type_error pf)))))"

text \<open>Lines 218-266.\<close>

definition ok_verdict :: "platform \<Rightarrow> string \<Rightarrow> (string \<times> json) js" where
  "ok_verdict pf resultText =
     (case json_parse pf resultText of
        None \<Rightarrow> Inr (''ERROR'', JStr ''Trinetra AI response was not valid JSON.'')
      | Some resultJson \<Rightarrow>
          bind_js (candidate_text pf resultJson) (\<lambda>t.
            case t of
              Some aiResponseText \<Rightarrow> analysis_verdict pf aiResponseText
            | None \<Rightarrow>
                bind_js (get_prop pf ''promptFeedback'' resultJson) (\<lambda>fb.
                  bind_js (if truthy fb then get_prop pf ''blockReason'' fb else Inr JUndef)
                    (\<lambda>br.
                      if truthy br
                      then Inr (''ERROR'',
                                JStr (''Trinetra AI analysis blocked by content safety filter: ''
                                       @ js_string pf br))
                      else Inr (''ERROR'',
                                JStr ''Could not extract content from Trinetra AI response (unexpected structure).'')))))"

definition response_verdict :: "platform \<Rightarrow> fetch_outcome \<Rightarrow> (string \<times> json) js" where
  "response_verdict pf outcome =
     (case outcome of
        Rejected msg \<Rightarrow> Inl msg
      | Response ok statusText body \<Rightarrow>
          if \<not> ok then not_ok_verdict pf statusText body else ok_verdict pf body)"

text \<open>The \<open>catch\<close> of line 268.\<close>

definition network_error :: "platform \<Rightarrow> int \<Rightarrow> nat \<Rightarrow> page_data \<Rightarrow> string \<Rightarrow> state
     \<Rightarrow> state \<times> effect list" where
  "network_error pf now tabId pageData msg s =
     (case updateTabStatus pf now tabId (page_url pageData) ''ERROR''
             (JStr (''Network error or issue calling Trinetra AI backend: '' @ msg)) s of
        (s', effs, thrown) \<Rightarrow> (s', effs))"

text \<open>\<open>analyzeWithAI\<close> from the resolution of \<open>fetch\<close> on (lines 205-271).\<close>

definition analyzeWithAI_response ::
  "platform \<Rightarrow> int \<Rightarrow> nat \<Rightarrow> page_data \<Rightarrow> fetch_outcome \<Rightarrow> state \<Rightarrow> state \<times> effect list" where
  "analyzeWithAI_response pf now tabId pageData outcome s =
     (case response_verdict pf outcome of
        Inl msg \<Rightarrow> network_error pf now tabId pageData msg s
      | Inr (st, ex) \<Rightarrow>
          (case updateTabStatus pf now tabId (page_url pageData) st ex s of
             (s', effs, None) \<Rightarrow> (s', effs)
           | (s', effs, Some msg) \<Rightarrow>
               (case network_error pf now tabId pageData msg s' of
                  (s'', effs') \<Rightarrow> (s'', effs @ effs'))))"

subsection \<open>analyzeWithAI: from the API key to the request\<close>

definition whitelisted :: "platform \<Rightarrow> string \<Rightarrow> bool" where
  "whitelisted pf u =
     (case getDomain pf u of
        None \<Rightarrow> False
      | Some domain \<Rightarrow>
          domain \<noteq> [] \<and> list_ex (\<lambda>whitelistedDomain. endsWith domain whitelistedDomain) WHITELISTED_DOMAINS)"

definition record_status ::
  "platform \<Rightarrow> int \<Rightarrow> nat \<Rightarrow> string \<Rightarrow> string \<Rightarrow> string \<Rightarrow> state \<Rightarrow> state \<times> effect list" where
  "record_status pf now tabId u st ex s =
     (case updateTabStatus pf now tabId u st (JStr ex) s of (s', effs, thrown) \<Rightarrow> (s', effs))"

text \<open>
  \<open>analyzeWithAI\<close> from the resolution of \<open>getApiKey()\<close> to \<open>await fetch\<close> (lines 112-203);
  \<open>key\<close> is the value read. When the payload cannot be built the error escapes the
  function (the \<open>try\<close> starts at the request) and nothing is recorded.
\<close>

definition analyzeWithAI_resume ::
  "platform \<Rightarrow> int \<Rightarrow> nat \<Rightarrow> page_data \<Rightarrow> string option \<Rightarrow> state \<Rightarrow> state \<times> effect list" where
  "analyzeWithAI_resume pf now tabId pageData key s =
     (case (case key of None \<Rightarrow> None | Some k \<Rightarrow> if k = [] then None else Some k) of
        None \<Rightarrow>
          record_status pf now tabId (page_url pageData) ''ERROR''
            ''Gemini API key is missing. Please set it in the Trinetra popup.'' s
      | Some k \<Rightarrow>
          if whitelisted pf (page_url pageData) then
            record_status pf now tabId (page_url pageData) ''SAFE''
              ''This domain is on Trinetra's trusted whitelist.'' s
          else if page_url pageData \<in> sessionProceededUrls s then
            record_status pf now tabId (page_url pageData) ''SAFE''
              ''You chose to proceed to this page earlier in this session.'' s
          else
            (case payload pf pageData of
               None \<Rightarrow> (s, [])
             | Some jsonDataString \<Rightarrow>
                 (case truncateText pf (JStr jsonDataString) 30000 of
                    Inl e \<Rightarrow> (s, [])
                  | Inr truncatedJsonData \<Rightarrow>
                      (s\<lparr>pending := pending s @ [AwaitFetch tabId pageData]\<rparr>,
                       [Fetch k (js_string pf truncatedJsonData)]))))"

subsection \<open>Events\<close>

text \<open>
  The messages of \<open>chrome.runtime.onMessage\<close> (with \<open>sender.tab?.id\<close> or \<open>request.tabId\<close>,
  \<open>None\<close> when undefined), the tab listeners, the resolutions of the two awaits (by the
  position of the suspended call in \<open>pending\<close>), and the popup's writes of the API key.
\<close>

datatype event =
    PAGE_DATA "nat option" page_data
  | GET_TAB_STATUS "nat option"
  | GO_BACK_TAB "nat option"
  | PROCEED_ANYWAY "nat option"
  | TabUpdated nat "string option" "string option"
  | TabRemoved nat
  | KeyResolved nat
  | FetchResolved nat fetch_outcome
  | SaveKey string
  | ClearKey

definition remove_nth :: "nat \<Rightarrow> 'a list \<Rightarrow> 'a list" where
  "remove_nth i xs = take i xs @ drop (Suc i) xs"

definition pending_placeholder :: status_reply where
  "pending_placeholder = Placeholder ''PENDING'' ''Trinetra is analyzing or no data yet...''"

text \<open>\<open>tabAnalysisResults[tabId] || { status: "PENDING", ... }\<close>; no property is ever
  created under the name of an undefined tab id.\<close>

definition getStatus :: "state \<Rightarrow> nat option \<Rightarrow> status_reply" where
  "getStatus s tabId =
     (case tabId of
        None \<Rightarrow> pending_placeholder
      | Some t \<Rightarrow> (case tabAnalysisResults s t of
                     Rec r \<Rightarrow> Stored r
                   | _ \<Rightarrow> pending_placeholder))"

text \<open>The PAGE\_DATA branch for a truthy tab id (lines 358-369).\<close>

definition handlePageData :: "int \<Rightarrow> nat \<Rightarrow> page_data \<Rightarrow> state \<Rightarrow> state \<times> effect list" where
  "handlePageData now tabId pageData s =
     (let initiated =
            (s\<lparr>pending := pending s @ [AwaitKey tabId pageData]\<rparr>,
             [StorageGet,
              SendResponse (RespStatus ''Trinetra analysis initiated with Gemini 1.5 Flash.'')])
      in case tabAnalysisResults s tabId of
           Rec existingResult \<Rightarrow>
             if url existingResult = page_url pageData \<and>
                (page_url pageData \<in> sessionProceededUrls s \<or>
                 now - timestamp existingResult < ANALYSIS_CACHE_DURATION_MS)
             then (s, [UPDATE_POPUP_DATA existingResult,
                       SendResponse (RespStatus ''Using cached/proceeded Trinetra result.'')])
             else initiated
         | _ \<Rightarrow> initiated)"

text \<open>The PROCEED\_ANYWAY branch (lines 382-389).\<close>

definition proceedAnyway :: "platform \<Rightarrow> int \<Rightarrow> nat option \<Rightarrow> state \<Rightarrow> state \<times> effect list" where
  "proceedAnyway pf now tabId s =
     (case tabId of
        None \<Rightarrow> (s, [SendResponse (RespSuccess False None)])
      | Some t \<Rightarrow>
          (case (if t \<noteq> 0 then tabAnalysisResults s t else Absent) of
             Rec r \<Rightarrow>
               (let urlToProceed = url r;
                    s1 = s\<lparr>sessionProceededUrls := insert urlToProceed (sessionProceededUrls s)\<rparr>
                in case record_status pf now t urlToProceed ''SAFE''
                          ''You chose to proceed. Trinetra will trust this page for this session.'' s1 of
                     (s2, effs) \<Rightarrow>
                       (s2, effs @ [SendResponse (RespSuccess True
                                      (case tabAnalysisResults s2 t of
                                         Rec r' \<Rightarrow> Some r' | _ \<Rightarrow> None))]))
           | _ \<Rightarrow> (s, [SendResponse (RespSuccess False None)])))"

text \<open>The \<open>chrome.tabs.onUpdated\<close> listener (lines 395-406).\<close>

definition onUpdated :: "platform \<Rightarrow> nat \<Rightarrow> string option \<Rightarrow> string option \<Rightarrow> state \<Rightarrow> state" where
  "onUpdated pf tabId changeStatus tabUrl s =
     (case tabUrl of
        None \<Rightarrow> s
      | Some u \<Rightarrow>
          if changeStatus = Some ''complete'' \<and> u \<noteq> [] \<and>
             (startsWith u ''http://'' \<or> startsWith u ''https://'')
          then (case tabAnalysisResults s tabId of
                  Rec r \<Rightarrow>
                    if getDomain pf (url r) \<noteq> getDomain pf u
                    then s\<lparr>tabAnalysisResults := (tabAnalysisResults s)(tabId := Null)\<rparr>
                    else s
                | _ \<Rightarrow> s)
          else s)"

text \<open>The \<open>chrome.tabs.onRemoved\<close> listener.\<close>

definition onRemoved :: "nat \<Rightarrow> state \<Rightarrow> state" where
  "onRemoved tabId s = s\<lparr>tabAnalysisResults := (tabAnalysisResults s)(tabId := Absent)\<rparr>"

fun step :: "platform \<Rightarrow> int \<Rightarrow> event \<Rightarrow> state \<Rightarrow> state \<times> effect list" where
  "step pf now (PAGE_DATA sender pageData) s =
     (case sender of
        None \<Rightarrow> (s, [])
      | Some tabId \<Rightarrow> if tabId \<noteq> 0 then handlePageData now tabId pageData s else (s, []))"
| "step pf now (GET_TAB_STATUS tabId) s =
     (s, [SendResponse (RespTabStatus (getStatus s tabId))])"
| "step pf now (GO_BACK_TAB tabId) s =
     (case tabId of
        None \<Rightarrow> (s, [])
      | Some t \<Rightarrow> if t \<noteq> 0 then (s, [GoBack t, SendResponse (RespSuccess True None)])
                  else (s, []))"
| "step pf now (PROCEED_ANYWAY tabId) s = proceedAnyway pf now tabId s"
| "step pf now (TabUpdated tabId changeStatus tabUrl) s =
     (onUpdated pf tabId changeStatus tabUrl s, [])"
| "step pf now (TabRemoved tabId) s = (onRemoved tabId s, [])"
| "step pf now (KeyResolved i) s =
     (if i < length (pending s) then
        (case pending s ! i of
           AwaitKey tabId pageData \<Rightarrow>
             analyzeWithAI_resume pf now tabId pageData (apiKey s)
               (s\<lparr>pending := remove_nth i (pending s)\<rparr>)
         | AwaitFetch tabId pageData \<Rightarrow> (s, []))
      else (s, []))"
| "step pf now (FetchResolved i outcome) s =
     (if i < length (pending s) then
        (case pending s ! i of
           AwaitFetch tabId pageData \<Rightarrow>
             analyzeWithAI_response pf now tabId pageData outcome
               (s\<lparr>pending := remove_nth i (pending s)\<rparr>)
         | AwaitKey tabId pageData \<Rightarrow> (s, []))
      else (s, []))"
| "step pf now (SaveKey input) s =
     (let newApiKey = trim pf input
      in if newApiKey \<noteq> [] then (s\<lparr>apiKey := Some newApiKey\<rparr>, []) else (s, []))"
| "step pf now ClearKey s = (s\<lparr>apiKey := None\<rparr>, [])"

text \<open>Running a list of timed events from a state.\<close>

fun run :: "platform \<Rightarrow> (int \<times> event) list \<Rightarrow> state \<Rightarrow> state" where
  "run pf [] s = s"
| "run pf ((now, ev) # evs) s = run pf evs (fst (step pf now ev s))"

text \<open>
  The states the service worker can be in: it starts with empty results and whatever key
  the storage holds.
\<close>

inductive reachable :: "platform \<Rightarrow> state \<Rightarrow> bool" for pf :: platform where
  reachable_init: "reachable pf (initial_state\<lparr>apiKey := key\<rparr>)"
| reachable_step: "reachable pf s \<Longrightarrow> reachable pf (fst (step pf now ev s))"

subsection \<open>Invariants\<close>

fun task_tab :: "task \<Rightarrow> nat" where
  "task_tab (AwaitKey tabId pageData) = tabId"
| "task_tab (AwaitFetch tabId pageData) = tabId"

text \<open>The statuses \<open>updateTabStatus\<close> is called with.\<close>

definition valid_status :: "string \<Rightarrow> bool" where
  "valid_status st = (st \<in> set [''SAFE'', ''SUSPICIOUS'', ''DANGEROUS'', ''ERROR''])"

definition slot_ok :: "slot \<Rightarrow> bool" where
  "slot_ok e = (case e of Rec r \<Rightarrow> valid_status (status r) | _ \<Rightarrow> True)"

text \<open>
  Every entry is absent, \<open>null\<close>, or a record of the four fields whose status is one of
  the four verdicts (the record type has the four fields of the object literal in
  \<open>updateTabStatus\<close>, the only place that builds an entry).
\<close>

definition store_inv :: "state \<Rightarrow> bool" where
  "store_inv s = (\<forall>t. slot_ok (tabAnalysisResults s t))"

text \<open>Nothing is stored or pending under the falsy tab id 0.\<close>

definition tabs_inv :: "state \<Rightarrow> bool" where
  "tabs_inv s =
     (tabAnalysisResults s 0 = Absent \<and> list_all (\<lambda>task. task_tab task \<noteq> 0) (pending s))"

subsection \<open>A platform for the examples\<close>

text \<open>
  Stand-ins for the platform on the inputs of the examples below: the host of a simple
  http(s) URL, a table for \<open>JSON.parse\<close> on the texts that occur, and \<open>toUpperCase\<close> and
  \<open>trim\<close> as they are on strings of ASCII characters (the letters a to z have an upper
  case; the white space is the tab, the line feed, the vertical tab, the form feed, the
  carriage return and the space).
\<close>

definition demo_upper_char :: "char \<Rightarrow> char" where
  "demo_upper_char c =
     (case map_of (zip ''abcdefghijklmnopqrstuvwxyz'' ''ABCDEFGHIJKLMNOPQRSTUVWXYZ'') c of
        None \<Rightarrow> c
      | Some C \<Rightarrow> C)"

definition demo_toUpperCase :: "string \<Rightarrow> string" where
  "demo_toUpperCase s = map demo_upper_char s"

definition demo_is_space :: "char \<Rightarrow> bool" where
  "demo_is_space c = (c \<in> set [CHR 0x09, CHR 0x0A, CHR 0x0B, CHR 0x0C, CHR 0x0D, CHR 0x20])"

definition demo_trim :: "string \<Rightarrow> string" where
  "demo_trim s = rev (dropWhile demo_is_space (rev (dropWhile demo_is_space s)))"

definition demo_hostname :: "string \<Rightarrow> string option" where
  "demo_hostname u =
     (if startsWith u ''https://'' then Some (takeWhile (\<lambda>c. c \<noteq> CHR ''/'') (drop 8 u))
      else if startsWith u ''http://'' then Some (takeWhile (\<lambda>c. c \<noteq> CHR ''/'') (drop 7 u))
      else None)"

text \<open>The response body of the API around the text of the first part.\<close>

definition gemini_envelope :: "json \<Rightarrow> json" where
  "gemini_envelope text =
     JObj [(''candidates'',
            JArr [JObj [(''content'', JObj [(''parts'', JArr [JObj [(''text'', text)]])])]])]"

definition safe_reply :: string where
  "safe_reply = ''{\"status\": \"SAFE\", \"explanation\": \"ordinary page\"}''"

definition dangerous_reply :: string where
  "dangerous_reply = ''{\"status\": \"dangerous\", \"explanation\": \"mimics bank login\"}''"

definition weird_reply :: string where
  "weird_reply = ''{\"status\": \"weird\", \"explanation\": \"odd page\"}''"

definition weird_empty_reply :: string where
  "weird_empty_reply = ''{\"status\": \"weird\", \"explanation\": \"\"}''"

definition no_status_reply :: string where
  "no_status_reply = ''{\"explanation\": \"looks fine\"}''"

definition prose_reply :: string where
  "prose_reply = ''This page looks fine to me.''"

definition demo_body :: "string \<Rightarrow> string" where
  "demo_body text = ''body of '' @ text"

definition demo_replies :: "(string \<times> json) list" where
  "demo_replies =
     [(safe_reply, JObj [(''status'', JStr ''SAFE''), (''explanation'', JStr ''ordinary page'')]),
      (dangerous_reply,
       JObj [(''status'', JStr ''dangerous''), (''explanation'', JStr ''mimics bank login'')]),
      (weird_reply, JObj [(''status'', JStr ''weird''), (''explanation'', JStr ''odd page'')]),
      (weird_empty_reply, JObj [(''status'', JStr ''weird''), (''explanation'', JStr [])]),
      (no_status_reply, JObj [(''explanation'', JStr ''looks fine'')])]"

definition demo_parse :: "string \<Rightarrow> json option" where
  "demo_parse t =
     map_of (demo_replies @
             map (\<lambda>text. (demo_body text, gemini_envelope (JStr text)))
               (prose_reply # map fst demo_replies)) t"

definition demo_platform :: platform where
  "demo_platform =
     \<lparr>url_hostname = demo_hostname, json_parse = demo_parse,
      to_text = (\<lambda>v. ''[object]''), to_number = (\<lambda>v. None), percent = (\<lambda>v. ''90''),
      payload = (\<lambda>pageData. Some ''{}''), type_error = ''TypeError'',
      toUpperCase = demo_toUpperCase, trim = demo_trim\<rparr>"

definition page :: "string \<Rightarrow> page_data" where
  "page u = \<lparr>page_url = u, page_rest = JNull\<rparr>"

text \<open>A page visited on tab 1 while no API key is stored.\<close>

definition visit_without_key :: "(int \<times> event) list" where
  "visit_without_key =
     [(1000, PAGE_DATA (Some 1) (page ''https://example.org/'')), (1001, KeyResolved 0)]"

text \<open>The same visit, followed by the user's choice to proceed.\<close>

definition proceeded_visit :: "(int \<times> event) list" where
  "proceeded_visit = visit_without_key @ [(2000, PROCEED_ANYWAY (Some 1))]"

text \<open>
  A slow classification: with a key stored, tab 1 loads a page and its request is in
  flight; then the tab navigates to another page, which is classified DANGEROUS while
  the first request is still pending.
\<close>

definition old_page :: page_data where
  "old_page = page ''https://slow.example/''"

definition new_page :: page_data where
  "new_page = page ''https://bank-login.example/''"

definition awaiting_reply :: "(int \<times> event) list" where
  "awaiting_reply =
     [(0, SaveKey ''k''), (1000, PAGE_DATA (Some 1) old_page), (1010, KeyResolved 0)]"

definition navigated_away :: "(int \<times> event) list" where
  "navigated_away =
     [(0, SaveKey ''k''),
      (1000, PAGE_DATA (Some 1) old_page),
      (1010, KeyResolved 0),
      (2000, TabUpdated 1 (Some ''complete'') (Some ''https://bank-login.example/'')),
      (2010, PAGE_DATA (Some 1) new_page),
      (2020, KeyResolved 1),
      (2500, FetchResolved 1 (Response True ''OK'' (demo_body dangerous_reply)))]"

text \<open>
  A key is stored, tab 1 loads a whitelisted page, and the key is cleared afterwards.
\<close>

definition key_cleared_after_visit :: "(int \<times> event) list" where
  "key_cleared_after_visit =
     [(0, SaveKey ''k''), (1000, PAGE_DATA (Some 1) (page ''https://github.com/foo'')),
      (1001, KeyResolved 0), (1500, ClearKey)]"

section \<open>Properties\<close>

subsection \<open>What updateTabStatus and the response handling write\<close>

lemma updateTabStatus_state:
  "fst (updateTabStatus pf now tabId u st ex s) =
     s\<lparr>tabAnalysisResults := (tabAnalysisResults s)
          (tabId := Rec \<lparr>url = u, status = st, explanation = ex, timestamp = now\<rparr>)\<rparr>"
  by (simp add: updateTabStatus_def Let_def split: sum.splits)

lemma record_status_state:
  "fst (record_status pf now tabId u st ex s) =
     s\<lparr>tabAnalysisResults := (tabAnalysisResults s)
          (tabId := Rec \<lparr>url = u, status = st, explanation = JStr ex, timestamp = now\<rparr>)\<rparr>"
proof -
  obtain s' effs thrown
    where u: "updateTabStatus pf now tabId u st (JStr ex) s = (s', effs, thrown)"
    by (cases "updateTabStatus pf now tabId u st (JStr ex) s")
  show ?thesis
    using updateTabStatus_state [of pf now tabId u st "JStr ex" s] u
    by (simp add: record_status_def)
qed

lemma record_status_quiet:
  "st \<noteq> ''DANGEROUS'' \<Longrightarrow> st \<noteq> ''SUSPICIOUS'' \<Longrightarrow>
   record_status pf now tabId u st ex s =
     (s\<lparr>tabAnalysisResults := (tabAnalysisResults s)
          (tabId := Rec \<lparr>url = u, status = st, explanation = JStr ex, timestamp = now\<rparr>)\<rparr>,
      [UPDATE_POPUP_DATA \<lparr>url = u, status = st, explanation = JStr ex, timestamp = now\<rparr>])"
  by (simp add: record_status_def updateTabStatus_def Let_def)

lemma network_error_eq:
  "network_error pf now tabId pd msg s =
     (s\<lparr>tabAnalysisResults := (tabAnalysisResults s)
          (tabId := Rec \<lparr>url = page_url pd, status = ''ERROR'',
             explanation = JStr (''Network error or issue calling Trinetra AI backend: '' @ msg),
             timestamp = now\<rparr>)\<rparr>,
      [UPDATE_POPUP_DATA \<lparr>url = page_url pd, status = ''ERROR'',
          explanation = JStr (''Network error or issue calling Trinetra AI backend: '' @ msg),
          timestamp = now\<rparr>])"
  by (simp add: network_error_def updateTabStatus_def Let_def)

text \<open>Whatever the outcome of the request, the suspended call ends by writing a record
  for its own URL.\<close>

lemma analyzeWithAI_response_state:
  "\<exists>st ex. fst (analyzeWithAI_response pf now tabId pd outcome s) =
     s\<lparr>tabAnalysisResults := (tabAnalysisResults s)
          (tabId := Rec \<lparr>url = page_url pd, status = st, explanation = ex, timestamp = now\<rparr>)\<rparr>
     \<and> (st = ''ERROR'' \<or> (\<exists>e. response_verdict pf outcome = Inr (st, e)))"
proof (cases "response_verdict pf outcome")
  case (Inl msg)
  have "fst (analyzeWithAI_response pf now tabId pd outcome s) =
     s\<lparr>tabAnalysisResults := (tabAnalysisResults s)
          (tabId := Rec \<lparr>url = page_url pd, status = ''ERROR'',
             explanation = JStr (''Network error or issue calling Trinetra AI backend: '' @ msg),
             timestamp = now\<rparr>)\<rparr>"
    using Inl by (simp add: analyzeWithAI_response_def network_error_eq)
  then show ?thesis by blast
next
  case (Inr p)
  obtain st ex where p: "p = (st, ex)" by (cases p)
  obtain s' effs thrown
    where u: "updateTabStatus pf now tabId (page_url pd) st ex s = (s', effs, thrown)"
    by (cases "updateTabStatus pf now tabId (page_url pd) st ex s")
  have s': "s' = s\<lparr>tabAnalysisResults := (tabAnalysisResults s)
          (tabId := Rec \<lparr>url = page_url pd, status = st, explanation = ex, timestamp = now\<rparr>)\<rparr>"
    using updateTabStatus_state [of pf now tabId "page_url pd" st ex s] u by simp
  show ?thesis
  proof (cases thrown)
    case None
    have "fst (analyzeWithAI_response pf now tabId pd outcome s) = s'"
      using None Inr p u by (simp add: analyzeWithAI_response_def)
    with s' Inr p show ?thesis by blast
  next
    case (Some msg)
    have "fst (analyzeWithAI_response pf now tabId pd outcome s) =
       s\<lparr>tabAnalysisResults := (tabAnalysisResults s)
          (tabId := Rec \<lparr>url = page_url pd, status = ''ERROR'',
             explanation = JStr (''Network error or issue calling Trinetra AI backend: '' @ msg),
             timestamp = now\<rparr>)\<rparr>"
      using Some Inr p u s' by (simp add: analyzeWithAI_response_def network_error_eq)
    then show ?thesis by blast
  qed
qed

subsection \<open>The statuses of a response\<close>

lemma not_ok_verdict_status:
  "not_ok_verdict pf statusText body = Inr (st, e) \<Longrightarrow> st = ''ERROR''"
  by (auto simp: not_ok_verdict_def bind_js_def Let_def
      split: option.splits sum.splits if_splits json.splits)

lemma analysis_verdict_status:
  "analysis_verdict pf t = Inr (st, e) \<Longrightarrow> valid_status st"
  by (auto simp: analysis_verdict_def bind_js_def Let_def valid_status_def incomplete_def
      split: option.splits sum.splits if_splits json.splits)

lemma ok_verdict_status:
  "ok_verdict pf body = Inr (st, e) \<Longrightarrow> valid_status st"
  by (auto simp: ok_verdict_def bind_js_def Let_def valid_status_def
      dest: analysis_verdict_status
      split: option.splits sum.splits if_splits)

lemma response_verdict_status:
  "response_verdict pf outcome = Inr (st, e) \<Longrightarrow> valid_status st"
  by (auto simp: response_verdict_def valid_status_def
      dest: not_ok_verdict_status ok_verdict_status
      split: fetch_outcome.splits if_splits)

subsection \<open>The falsy tab id\<close>

lemma resume_tabs_inv:
  "tabId \<noteq> 0 \<Longrightarrow> tabs_inv s \<Longrightarrow> tabs_inv (fst (analyzeWithAI_resume pf now tabId pd key s))"
  by (auto simp: analyzeWithAI_resume_def record_status_state tabs_inv_def
      split: option.splits sum.splits if_splits)

lemma response_tabs_inv:
  "tabId \<noteq> 0 \<Longrightarrow> tabs_inv s \<Longrightarrow> tabs_inv (fst (analyzeWithAI_response pf now tabId pd outcome s))"
  using analyzeWithAI_response_state [of pf now tabId pd outcome s]
  by (auto simp: tabs_inv_def)

lemma remove_nth_all: "list_all P xs \<Longrightarrow> list_all P (remove_nth i xs)"
  by (auto simp: remove_nth_def list_all_iff dest: in_set_takeD in_set_dropD)

lemma nth_all: "list_all P xs \<Longrightarrow> i < length xs \<Longrightarrow> P (xs ! i)"
  by (simp add: list_all_length)

lemma step_tabs_inv:
  assumes inv: "tabs_inv s"
  shows "tabs_inv (fst (step pf now ev s))"
proof (cases ev)
  case (PAGE_DATA sender pd)
  then show ?thesis using inv
    by (auto simp: tabs_inv_def handlePageData_def Let_def split: option.splits slot.splits)
next
  case (GET_TAB_STATUS t)
  then show ?thesis using inv by simp
next
  case (GO_BACK_TAB t)
  then show ?thesis using inv by (simp split: option.splits)
next
  case (PROCEED_ANYWAY t)
  then show ?thesis using inv
    by (auto simp: tabs_inv_def proceedAnyway_def Let_def record_status_quiet
        split: option.splits slot.splits if_splits)
next
  case (TabUpdated t c u)
  then show ?thesis using inv
    by (auto simp: tabs_inv_def onUpdated_def split: option.splits slot.splits)
next
  case (TabRemoved t)
  then show ?thesis using inv by (simp add: tabs_inv_def onRemoved_def)
next
  case (KeyResolved i)
  show ?thesis
  proof (cases "i < length (pending s)")
    case False
    then show ?thesis using KeyResolved inv by simp
  next
    case True
    show ?thesis
    proof (cases "pending s ! i")
      case (AwaitKey tabId pd)
      have t: "tabId \<noteq> 0"
        using nth_all [of "\<lambda>task. task_tab task \<noteq> 0" "pending s" i] inv True AwaitKey
        by (simp add: tabs_inv_def)
      have "tabs_inv (s\<lparr>pending := remove_nth i (pending s)\<rparr>)"
        using inv by (simp add: tabs_inv_def remove_nth_all)
      then show ?thesis using inv
        using KeyResolved True AwaitKey t by (simp add: resume_tabs_inv)
    next
      case (AwaitFetch tabId pd)
      then show ?thesis using KeyResolved True inv by simp
    qed
  qed
next
  case (FetchResolved i outcome)
  show ?thesis
  proof (cases "i < length (pending s)")
    case False
    then show ?thesis using FetchResolved inv by simp
  next
    case True
    show ?thesis
    proof (cases "pending s ! i")
      case (AwaitFetch tabId pd)
      have t: "tabId \<noteq> 0"
        using nth_all [of "\<lambda>task. task_tab task \<noteq> 0" "pending s" i] inv True AwaitFetch
        by (simp add: tabs_inv_def)
      have "tabs_inv (s\<lparr>pending := remove_nth i (pending s)\<rparr>)"
        using inv by (simp add: tabs_inv_def remove_nth_all)
      then show ?thesis using inv
        using FetchResolved True AwaitFetch t by (simp add: response_tabs_inv)
    next
      case (AwaitKey tabId pd)
      then show ?thesis using FetchResolved True inv by simp
    qed
  qed
next
  case (SaveKey k)
  then show ?thesis using inv by (simp add: tabs_inv_def Let_def)
next
  case ClearKey
  then show ?thesis using inv by (simp add: tabs_inv_def)
qed

lemma reachable_tabs_inv: "reachable pf s \<Longrightarrow> tabs_inv s"
proof (induction rule: reachable.induct)
  case (reachable_init key)
  show ?case by (simp add: tabs_inv_def initial_state_def)
next
  case (reachable_step s now ev)
  then show ?case by (simp add: step_tabs_inv)
qed

lemma reachable_tab0: "reachable pf s \<Longrightarrow> tabAnalysisResults s 0 = Absent"
  using reachable_tabs_inv by (simp add: tabs_inv_def)

subsection \<open>Reachable states\<close>

lemma reachable_initial: "reachable pf initial_state"
  using reachable_init [of pf None] by (simp add: initial_state_def)

lemma reachable_run: "reachable pf s \<Longrightarrow> reachable pf (run pf evs s)"
proof (induction evs arbitrary: s)
  case Nil
  then show ?case by simp
next
  case (Cons e evs)
  obtain now ev where e: "e = (now, ev)" by (cases e)
  show ?case using Cons e by (simp add: reachable_step)
qed

lemma visit_without_key_state:
  "run demo_platform visit_without_key initial_state =
     initial_state\<lparr>tabAnalysisResults := (tabAnalysisResults initial_state)
        (1 := Rec \<lparr>url = ''https://example.org/'', status = ''ERROR'',
                    explanation = JStr ''Gemini API key is missing. Please set it in the Trinetra popup.'',
                    timestamp = 1001\<rparr>)\<rparr>"
  by (simp add: visit_without_key_def handlePageData_def initial_state_def Let_def
      analyzeWithAI_resume_def record_status_quiet remove_nth_def page_def)

subsection \<open>The whitelist and the API key\<close>

text \<open>
  C1, as the code has it. \<open>analyzeWithAI\<close> reads the API key before it looks at the
  whitelist. For a page whose domain (after a leading "www." is stripped) ends with a
  whitelist entry it never calls the classifier: it writes one record, sends it to the
  popup and neither issues a request nor leaves one pending. The record is SAFE with the
  trusted-whitelist explanation when a key is stored, and ERROR with the missing-key
  explanation when none is.
\<close>

theorem analyzeWithAI_whitelisted:
  assumes "whitelisted pf (page_url pageData)"
  shows "analyzeWithAI_resume pf now tabId pageData key s =
    (let present = (key \<noteq> None \<and> key \<noteq> Some []);
         r = \<lparr>url = page_url pageData,
              status = (if present then ''SAFE'' else ''ERROR''),
              explanation =
                JStr (if present then ''This domain is on Trinetra's trusted whitelist.''
                      else ''Gemini API key is missing. Please set it in the Trinetra popup.''),
              timestamp = now\<rparr>
     in (s\<lparr>tabAnalysisResults := (tabAnalysisResults s)(tabId := Rec r)\<rparr>,
         [UPDATE_POPUP_DATA r]))"
  using assms
  by (simp add: analyzeWithAI_resume_def record_status_quiet Let_def split: option.splits)

theorem analyzeWithAI_whitelisted_witness:
  "whitelisted demo_platform (page_url (page ''https://www.github.com/foo'')) \<and>
   analyzeWithAI_resume demo_platform 1000 1 (page ''https://www.github.com/foo'') (Some ''k'')
       initial_state =
     (initial_state\<lparr>tabAnalysisResults := (tabAnalysisResults initial_state)
        (1 := Rec \<lparr>url = ''https://www.github.com/foo'', status = ''SAFE'',
                    explanation = JStr ''This domain is on Trinetra's trusted whitelist.'',
                    timestamp = 1000\<rparr>)\<rparr>,
      [UPDATE_POPUP_DATA \<lparr>url = ''https://www.github.com/foo'', status = ''SAFE'',
                    explanation = JStr ''This domain is on Trinetra's trusted whitelist.'',
                    timestamp = 1000\<rparr>])"
proof -
  have w: "whitelisted demo_platform (page_url (page ''https://www.github.com/foo''))"
    by (simp add: whitelisted_def getDomain_def demo_platform_def demo_hostname_def
        startsWith_def strip_www_def page_def WHITELISTED_DOMAINS_def endsWith_def)
  show ?thesis
    using w analyzeWithAI_whitelisted [OF w, of 1000 1 "Some ''k''" initial_state]
    by (simp add: page_def Let_def)
qed

text \<open>
  C1 as stated fails: with no API key stored, the whitelisted page
  https://github.com/foo is recorded as ERROR, not SAFE.
\<close>

theorem whitelisted_without_key_counterexample:
  "whitelisted demo_platform ''https://github.com/foo'' \<and>
   tabAnalysisResults
     (run demo_platform
        [(1000, PAGE_DATA (Some 1) (page ''https://github.com/foo'')), (1001, KeyResolved 0)]
        initial_state) 1 =
     Rec \<lparr>url = ''https://github.com/foo'', status = ''ERROR'',
          explanation = JStr ''Gemini API key is missing. Please set it in the Trinetra popup.'',
          timestamp = 1001\<rparr>"
  by (simp add: whitelisted_def getDomain_def demo_platform_def demo_hostname_def
        startsWith_def strip_www_def page_def WHITELISTED_DOMAINS_def endsWith_def
        initial_state_def handlePageData_def Let_def remove_nth_def
        analyzeWithAI_resume_def record_status_quiet)

lemma key_cleared_after_visit_state:
  "run demo_platform key_cleared_after_visit initial_state =
     initial_state\<lparr>tabAnalysisResults := (tabAnalysisResults initial_state)
        (1 := Rec \<lparr>url = ''https://github.com/foo'', status = ''SAFE'',
                    explanation = JStr ''This domain is on Trinetra's trusted whitelist.'',
                    timestamp = 1001\<rparr>)\<rparr>"
  by (simp add: key_cleared_after_visit_def handlePageData_def initial_state_def Let_def
      analyzeWithAI_resume_def record_status_quiet remove_nth_def page_def
      whitelisted_def getDomain_def demo_platform_def demo_hostname_def startsWith_def
      strip_www_def WHITELISTED_DOMAINS_def endsWith_def demo_trim_def demo_is_space_def)

text \<open>
  C7 as stated fails: a key is stored, the whitelisted page of tab 1 is recorded as SAFE,
  and the key is cleared; the same page data arriving within the cache duration finds no
  key stored, and the handler reuses the SAFE record: no ERROR is recorded.
\<close>

theorem cached_record_without_key_counterexample:
  "apiKey (run demo_platform key_cleared_after_visit initial_state) = None \<and>
   step demo_platform 2000 (PAGE_DATA (Some 1) (page ''https://github.com/foo''))
       (run demo_platform key_cleared_after_visit initial_state) =
     (run demo_platform key_cleared_after_visit initial_state,
      [UPDATE_POPUP_DATA \<lparr>url = ''https://github.com/foo'', status = ''SAFE'',
          explanation = JStr ''This domain is on Trinetra's trusted whitelist.'',
          timestamp = 1001\<rparr>,
       SendResponse (RespStatus ''Using cached/proceeded Trinetra result.'')]) \<and>
   tabAnalysisResults (run demo_platform key_cleared_after_visit initial_state) 1 =
     Rec \<lparr>url = ''https://github.com/foo'', status = ''SAFE'',
          explanation = JStr ''This domain is on Trinetra's trusted whitelist.'',
          timestamp = 1001\<rparr>"
  unfolding key_cleared_after_visit_state
  by (simp add: initial_state_def handlePageData_def page_def Let_def
      ANALYSIS_CACHE_DURATION_MS_def)

text \<open>
  C7, as the code has it. Whenever the stored API key is absent (or empty) at the moment
  the \<open>getApiKey()\<close> of a call of \<open>analyzeWithAI\<close> resolves, the call records ERROR with
  the explanation that the key is missing, sends the record to the popup, and does
  nothing else: no request is issued and none is left pending. The PAGE\_DATA handler
  of a tab calls \<open>analyzeWithAI\<close> only when it does not reuse the tab's record: when the
  tab holds a record for the URL of the page data and that URL is in
  \<open>sessionProceededUrls\<close> or the record is younger than the cache duration, the record is
  sent to the popup, the state is unchanged (no ERROR is recorded) and no request is
  issued; otherwise the call is started, and it records ERROR when the key read resolves
  with no key stored.
\<close>

theorem missing_key_is_error:
  assumes "apiKey s = None \<or> apiKey s = Some []"
  shows "(i < length (pending s) \<and> pending s ! i = AwaitKey tabId pageData \<longrightarrow>
      step pf now (KeyResolved i) s =
        (s\<lparr>pending := remove_nth i (pending s),
           tabAnalysisResults := (tabAnalysisResults s)
             (tabId := Rec \<lparr>url = page_url pageData, status = ''ERROR'',
                explanation =
                  JStr ''Gemini API key is missing. Please set it in the Trinetra popup.'',
                timestamp = now\<rparr>)\<rparr>,
         [UPDATE_POPUP_DATA \<lparr>url = page_url pageData, status = ''ERROR'',
                explanation =
                  JStr ''Gemini API key is missing. Please set it in the Trinetra popup.'',
                timestamp = now\<rparr>])) \<and>
    (T \<noteq> 0 \<and> tabAnalysisResults s T = Rec r \<and> url r = page_url pageData \<and>
     (page_url pageData \<in> sessionProceededUrls s \<or>
      now - timestamp r < ANALYSIS_CACHE_DURATION_MS) \<longrightarrow>
      step pf now (PAGE_DATA (Some T) pageData) s =
        (s, [UPDATE_POPUP_DATA r,
             SendResponse (RespStatus ''Using cached/proceeded Trinetra result.'')])) \<and>
    (T \<noteq> 0 \<and>
     (\<forall>r. tabAnalysisResults s T = Rec r \<longrightarrow>
        \<not> (url r = page_url pageData \<and>
           (page_url pageData \<in> sessionProceededUrls s \<or>
            now - timestamp r < ANALYSIS_CACHE_DURATION_MS))) \<longrightarrow>
      step pf now (PAGE_DATA (Some T) pageData) s =
        (s\<lparr>pending := pending s @ [AwaitKey T pageData]\<rparr>,
         [StorageGet,
          SendResponse (RespStatus ''Trinetra analysis initiated with Gemini 1.5 Flash.'')]) \<and>
      step pf now' (KeyResolved (length (pending s)))
          (fst (step pf now (PAGE_DATA (Some T) pageData) s)) =
        (s\<lparr>tabAnalysisResults := (tabAnalysisResults s)
             (T := Rec \<lparr>url = page_url pageData, status = ''ERROR'',
                explanation =
                  JStr ''Gemini API key is missing. Please set it in the Trinetra popup.'',
                timestamp = now'\<rparr>)\<rparr>,
         [UPDATE_POPUP_DATA \<lparr>url = page_url pageData, status = ''ERROR'',
                explanation =
                  JStr ''Gemini API key is missing. Please set it in the Trinetra popup.'',
                timestamp = now'\<rparr>]))"
proof (intro conjI impI)
  assume "i < length (pending s) \<and> pending s ! i = AwaitKey tabId pageData"
  then show "step pf now (KeyResolved i) s =
        (s\<lparr>pending := remove_nth i (pending s),
           tabAnalysisResults := (tabAnalysisResults s)
             (tabId := Rec \<lparr>url = page_url pageData, status = ''ERROR'',
                explanation =
                  JStr ''Gemini API key is missing. Please set it in the Trinetra popup.'',
                timestamp = now\<rparr>)\<rparr>,
         [UPDATE_POPUP_DATA \<lparr>url = page_url pageData, status = ''ERROR'',
                explanation =
                  JStr ''Gemini API key is missing. Please set it in the Trinetra popup.'',
                timestamp = now\<rparr>])"
    using assms by (auto simp: analyzeWithAI_resume_def record_status_quiet)
next
  assume "T \<noteq> 0 \<and> tabAnalysisResults s T = Rec r \<and> url r = page_url pageData \<and>
     (page_url pageData \<in> sessionProceededUrls s \<or>
      now - timestamp r < ANALYSIS_CACHE_DURATION_MS)"
  then show "step pf now (PAGE_DATA (Some T) pageData) s =
        (s, [UPDATE_POPUP_DATA r,
             SendResponse (RespStatus ''Using cached/proceeded Trinetra result.'')])"
    by (auto simp: handlePageData_def Let_def)
next
  assume a: "T \<noteq> 0 \<and>
     (\<forall>r. tabAnalysisResults s T = Rec r \<longrightarrow>
        \<not> (url r = page_url pageData \<and>
           (page_url pageData \<in> sessionProceededUrls s \<or>
            now - timestamp r < ANALYSIS_CACHE_DURATION_MS)))"
  then show started: "step pf now (PAGE_DATA (Some T) pageData) s =
        (s\<lparr>pending := pending s @ [AwaitKey T pageData]\<rparr>,
         [StorageGet,
          SendResponse (RespStatus ''Trinetra analysis initiated with Gemini 1.5 Flash.'')])"
    by (cases "tabAnalysisResults s T") (auto simp: handlePageData_def Let_def)
  have k: "apiKey (s\<lparr>pending := pending s @ [AwaitKey T pageData]\<rparr>) = None \<or>
      apiKey (s\<lparr>pending := pending s @ [AwaitKey T pageData]\<rparr>) = Some []"
    using assms by simp
  have "step pf now' (KeyResolved (length (pending s)))
          (s\<lparr>pending := pending s @ [AwaitKey T pageData]\<rparr>) =
        (s\<lparr>tabAnalysisResults := (tabAnalysisResults s)
             (T := Rec \<lparr>url = page_url pageData, status = ''ERROR'',
                explanation =
                  JStr ''Gemini API key is missing. Please set it in the Trinetra popup.'',
                timestamp = now'\<rparr>)\<rparr>,
         [UPDATE_POPUP_DATA \<lparr>url = page_url pageData, status = ''ERROR'',
                explanation =
                  JStr ''Gemini API key is missing. Please set it in the Trinetra popup.'',
                timestamp = now'\<rparr>])"
    using k by (auto simp: analyzeWithAI_resume_def record_status_quiet remove_nth_def)
  then show "step pf now' (KeyResolved (length (pending s)))
          (fst (step pf now (PAGE_DATA (Some T) pageData) s)) =
        (s\<lparr>tabAnalysisResults := (tabAnalysisResults s)
             (T := Rec \<lparr>url = page_url pageData, status = ''ERROR'',
                explanation =
                  JStr ''Gemini API key is missing. Please set it in the Trinetra popup.'',
                timestamp = now'\<rparr>)\<rparr>,
         [UPDATE_POPUP_DATA \<lparr>url = page_url pageData, status = ''ERROR'',
                explanation =
                  JStr ''Gemini API key is missing. Please set it in the Trinetra popup.'',
                timestamp = now'\<rparr>])"
    unfolding started by simp
qed

theorem missing_key_is_error_witness:
  "apiKey initial_state = None \<and>
   step demo_platform 1000 (PAGE_DATA (Some 1) (page ''https://example.org/'')) initial_state =
     (initial_state\<lparr>pending := [AwaitKey 1 (page ''https://example.org/'')]\<rparr>,
      [StorageGet,
       SendResponse (RespStatus ''Trinetra analysis initiated with Gemini 1.5 Flash.'')]) \<and>
   step demo_platform 1001 (KeyResolved 0)
       (fst (step demo_platform 1000
          (PAGE_DATA (Some 1) (page ''https://example.org/'')) initial_state)) =
     (initial_state\<lparr>tabAnalysisResults := (tabAnalysisResults initial_state)
        (1 := Rec \<lparr>url = ''https://example.org/'', status = ''ERROR'',
          explanation = JStr ''Gemini API key is missing. Please set it in the Trinetra popup.'',
          timestamp = 1001\<rparr>)\<rparr>,
      [UPDATE_POPUP_DATA \<lparr>url = ''https://example.org/'', status = ''ERROR'',
        explanation = JStr ''Gemini API key is missing. Please set it in the Trinetra popup.'',
        timestamp = 1001\<rparr>]) \<and>
   apiKey (run demo_platform key_cleared_after_visit initial_state) = None \<and>
   step demo_platform 2000 (PAGE_DATA (Some 1) (page ''https://github.com/foo''))
       (run demo_platform key_cleared_after_visit initial_state) =
     (run demo_platform key_cleared_after_visit initial_state,
      [UPDATE_POPUP_DATA \<lparr>url = ''https://github.com/foo'', status = ''SAFE'',
          explanation = JStr ''This domain is on Trinetra's trusted whitelist.'',
          timestamp = 1001\<rparr>,
       SendResponse (RespStatus ''Using cached/proceeded Trinetra result.'')]) \<and>
   step demo_platform 1001 (KeyResolved 0)
       (initial_state\<lparr>pending := [AwaitKey 1 (page ''https://example.org/'')]\<rparr>) =
     (initial_state\<lparr>pending := [],
        tabAnalysisResults := (tabAnalysisResults initial_state)
        (1 := Rec \<lparr>url = ''https://example.org/'', status = ''ERROR'',
          explanation = JStr ''Gemini API key is missing. Please set it in the Trinetra popup.'',
          timestamp = 1001\<rparr>)\<rparr>,
      [UPDATE_POPUP_DATA \<lparr>url = ''https://example.org/'', status = ''ERROR'',
        explanation = JStr ''Gemini API key is missing. Please set it in the Trinetra popup.'',
        timestamp = 1001\<rparr>])"
proof -
  let ?pd = "page ''https://example.org/''"
  let ?gh = "page ''https://github.com/foo''"
  let ?c = "run demo_platform key_cleared_after_visit initial_state"
  let ?w = "initial_state\<lparr>pending := [AwaitKey 1 ?pd]\<rparr>"
  let ?r = "\<lparr>url = ''https://github.com/foo'', status = ''SAFE'',
          explanation = JStr ''This domain is on Trinetra's trusted whitelist.'',
          timestamp = 1001\<rparr>"
  have k0: "apiKey initial_state = None \<or> apiKey initial_state = Some []"
    and k0': "apiKey initial_state = None"
    by (simp_all add: initial_state_def)
  have kc: "apiKey ?c = None \<or> apiKey ?c = Some []" and kc': "apiKey ?c = None"
    unfolding key_cleared_after_visit_state by (simp_all add: initial_state_def)
  have kw: "apiKey ?w = None \<or> apiKey ?w = Some []"
    by (simp add: initial_state_def)
  have fresh: "(1::nat) \<noteq> 0 \<and>
     (\<forall>r. tabAnalysisResults initial_state 1 = Rec r \<longrightarrow>
        \<not> (url r = page_url ?pd \<and>
           (page_url ?pd \<in> sessionProceededUrls initial_state \<or>
            1000 - timestamp r < ANALYSIS_CACHE_DURATION_MS)))"
    by (simp add: initial_state_def)
  have hit: "(1::nat) \<noteq> 0 \<and> tabAnalysisResults ?c 1 = Rec ?r \<and> url ?r = page_url ?gh \<and>
     (page_url ?gh \<in> sessionProceededUrls ?c \<or>
      2000 - timestamp ?r < ANALYSIS_CACHE_DURATION_MS)"
    unfolding key_cleared_after_visit_state
    by (simp add: initial_state_def page_def ANALYSIS_CACHE_DURATION_MS_def)
  have pend: "0 < length (pending ?w) \<and> pending ?w ! 0 = AwaitKey 1 ?pd"
    by simp
  have p0: "pending initial_state = []"
    by (simp add: initial_state_def)
  have pu: "page_url ?pd = ''https://example.org/''"
    by (simp add: page_def)
  have t: "step demo_platform 1000 (PAGE_DATA (Some 1) ?pd) initial_state =
     (initial_state\<lparr>pending := pending initial_state @ [AwaitKey 1 ?pd]\<rparr>,
      [StorageGet,
       SendResponse (RespStatus ''Trinetra analysis initiated with Gemini 1.5 Flash.'')]) \<and>
     step demo_platform 1001 (KeyResolved (length (pending initial_state)))
       (fst (step demo_platform 1000 (PAGE_DATA (Some 1) ?pd) initial_state)) =
     (initial_state\<lparr>tabAnalysisResults := (tabAnalysisResults initial_state)
        (1 := Rec \<lparr>url = page_url ?pd, status = ''ERROR'',
          explanation = JStr ''Gemini API key is missing. Please set it in the Trinetra popup.'',
          timestamp = 1001\<rparr>)\<rparr>,
      [UPDATE_POPUP_DATA \<lparr>url = page_url ?pd, status = ''ERROR'',
        explanation = JStr ''Gemini API key is missing. Please set it in the Trinetra popup.'',
        timestamp = 1001\<rparr>])"
    using missing_key_is_error [where s = initial_state and pf = demo_platform and i = 0 and tabId = 1
        and pageData = "?pd" and now = 1000 and T = 1 and r = "?r" and now' = 1001, OF k0] fresh
    by blast
  have ab: "step demo_platform 1000 (PAGE_DATA (Some 1) ?pd) initial_state =
     (initial_state\<lparr>pending := [AwaitKey 1 ?pd]\<rparr>,
      [StorageGet,
       SendResponse (RespStatus ''Trinetra analysis initiated with Gemini 1.5 Flash.'')]) \<and>
     step demo_platform 1001 (KeyResolved 0)
       (fst (step demo_platform 1000 (PAGE_DATA (Some 1) ?pd) initial_state)) =
     (initial_state\<lparr>tabAnalysisResults := (tabAnalysisResults initial_state)
        (1 := Rec \<lparr>url = ''https://example.org/'', status = ''ERROR'',
          explanation = JStr ''Gemini API key is missing. Please set it in the Trinetra popup.'',
          timestamp = 1001\<rparr>)\<rparr>,
      [UPDATE_POPUP_DATA \<lparr>url = ''https://example.org/'', status = ''ERROR'',
        explanation = JStr ''Gemini API key is missing. Please set it in the Trinetra popup.'',
        timestamp = 1001\<rparr>])"
    using t unfolding p0 pu append_Nil list.size .
  have c: "step demo_platform 2000 (PAGE_DATA (Some 1) ?gh) ?c =
     (?c, [UPDATE_POPUP_DATA ?r,
           SendResponse (RespStatus ''Using cached/proceeded Trinetra result.'')])"
    using missing_key_is_error [where s = "?c" and pf = demo_platform and i = 0 and tabId = 1
        and pageData = "?gh" and now = 2000 and T = 1 and r = "?r" and now' = 2001, OF kc] hit
    by blast
  have d: "step demo_platform 1001 (KeyResolved 0) ?w =
     (?w\<lparr>pending := remove_nth 0 (pending ?w),
        tabAnalysisResults := (tabAnalysisResults ?w)
        (1 := Rec \<lparr>url = page_url ?pd, status = ''ERROR'',
          explanation = JStr ''Gemini API key is missing. Please set it in the Trinetra popup.'',
          timestamp = 1001\<rparr>)\<rparr>,
      [UPDATE_POPUP_DATA \<lparr>url = page_url ?pd, status = ''ERROR'',
        explanation = JStr ''Gemini API key is missing. Please set it in the Trinetra popup.'',
        timestamp = 1001\<rparr>])"
    using missing_key_is_error [where s = "?w" and pf = demo_platform and i = 0 and tabId = 1
        and pageData = "?pd" and now = 1001 and T = 1 and r = "?r" and now' = 1002, OF kw] pend
    by blast
  have d': "step demo_platform 1001 (KeyResolved 0) ?w =
     (initial_state\<lparr>pending := [],
        tabAnalysisResults := (tabAnalysisResults initial_state)
        (1 := Rec \<lparr>url = ''https://example.org/'', status = ''ERROR'',
          explanation = JStr ''Gemini API key is missing. Please set it in the Trinetra popup.'',
          timestamp = 1001\<rparr>)\<rparr>,
      [UPDATE_POPUP_DATA \<lparr>url = ''https://example.org/'', status = ''ERROR'',
        explanation = JStr ''Gemini API key is missing. Please set it in the Trinetra popup.'',
        timestamp = 1001\<rparr>])"
    unfolding d by (simp add: remove_nth_def page_def)
  show ?thesis
    using k0' ab kc' c d' by blast
qed

subsection \<open>Reading and overriding a tab's status\<close>


text \<open>
  C4. In every reachable state, PROCEED\_ANYWAY answers \<open>success: false\<close> and changes
  nothing when the tab has no record (no tab id, no entry, or a \<open>null\<close> entry); when it has
  one, the record's URL is added to \<open>sessionProceededUrls\<close>, the entry is overwritten by a
  SAFE record for that URL with the user's-choice explanation, and that record is sent
  to the popup and returned as \<open>newStatus\<close>.
\<close>

theorem proceedAnyway_result:
  assumes "reachable pf s"
  shows "step pf now (PROCEED_ANYWAY None) s = (s, [SendResponse (RespSuccess False None)]) \<and>
    step pf now (PROCEED_ANYWAY (Some T)) s =
      (case tabAnalysisResults s T of
         Rec r \<Rightarrow>
           (let r' = \<lparr>url = url r, status = ''SAFE'',
                      explanation = JStr ''You chose to proceed. Trinetra will trust this page for this session.'',
                      timestamp = now\<rparr>
            in (s\<lparr>sessionProceededUrls := insert (url r) (sessionProceededUrls s),
                  tabAnalysisResults := (tabAnalysisResults s)(T := Rec r')\<rparr>,
                [UPDATE_POPUP_DATA r', SendResponse (RespSuccess True (Some r'))]))
       | Null \<Rightarrow> (s, [SendResponse (RespSuccess False None)])
       | Absent \<Rightarrow> (s, [SendResponse (RespSuccess False None)]))"
proof -
  have z: "tabAnalysisResults s 0 = Absent"
    using assms by (rule reachable_tab0)
  show ?thesis
  proof (cases "T = 0")
    case True
    then show ?thesis using z by (simp add: proceedAnyway_def)
  next
    case False
    then show ?thesis
      by (simp add: proceedAnyway_def record_status_quiet Let_def split: slot.splits)
  qed
qed

theorem proceedAnyway_result_witness:
  "reachable demo_platform (run demo_platform visit_without_key initial_state) \<and>
   step demo_platform 2000 (PROCEED_ANYWAY (Some 1))
       (run demo_platform visit_without_key initial_state) =
     ((run demo_platform visit_without_key initial_state)
        \<lparr>sessionProceededUrls := {''https://example.org/''},
         tabAnalysisResults :=
           (tabAnalysisResults (run demo_platform visit_without_key initial_state))
           (1 := Rec \<lparr>url = ''https://example.org/'', status = ''SAFE'',
                 explanation = JStr ''You chose to proceed. Trinetra will trust this page for this session.'',
                 timestamp = 2000\<rparr>)\<rparr>,
      [UPDATE_POPUP_DATA \<lparr>url = ''https://example.org/'', status = ''SAFE'',
                 explanation = JStr ''You chose to proceed. Trinetra will trust this page for this session.'',
                 timestamp = 2000\<rparr>,
       SendResponse (RespSuccess True (Some \<lparr>url = ''https://example.org/'', status = ''SAFE'',
                 explanation = JStr ''You chose to proceed. Trinetra will trust this page for this session.'',
                 timestamp = 2000\<rparr>))])"
proof -
  have r: "reachable demo_platform (run demo_platform visit_without_key initial_state)"
    by (rule reachable_run [OF reachable_initial])
  show ?thesis
    using r proceedAnyway_result [OF r, of 2000 1]
    unfolding visit_without_key_state
    by (simp add: initial_state_def Let_def)
qed

subsection \<open>The whitelist test is a suffix test on characters\<close>

text \<open>
  C9. The host name evilgoogle.com is not a whitelist entry and not a subdomain of one
  (it does not end with a dot followed by an entry), but it ends with the characters of
  google.com: with a key stored, a page on that host is recorded as SAFE with the
  trusted-whitelist explanation, and no request is issued or left pending.
\<close>

theorem suffix_match_without_label_boundary:
  assumes "url_hostname pf u = Some ''evilgoogle.com''" and "key = Some k" and "k \<noteq> []"
  shows "\<not> list_ex (\<lambda>w. ''evilgoogle.com'' = w \<or> endsWith ''evilgoogle.com'' (''.'' @ w))
             WHITELISTED_DOMAINS \<and>
    endsWith ''evilgoogle.com'' ''google.com'' \<and>
    analyzeWithAI_resume pf now tabId \<lparr>page_url = u, page_rest = rest\<rparr> key s =
      (s\<lparr>tabAnalysisResults := (tabAnalysisResults s)
           (tabId := Rec \<lparr>url = u, status = ''SAFE'',
              explanation = JStr ''This domain is on Trinetra's trusted whitelist.'',
              timestamp = now\<rparr>)\<rparr>,
       [UPDATE_POPUP_DATA \<lparr>url = u, status = ''SAFE'',
              explanation = JStr ''This domain is on Trinetra's trusted whitelist.'',
              timestamp = now\<rparr>])"
proof -
  have e: "endsWith ''evilgoogle.com'' ''google.com''"
    by (simp add: endsWith_def)
  have n: "\<not> list_ex (\<lambda>w. ''evilgoogle.com'' = w \<or> endsWith ''evilgoogle.com'' (''.'' @ w))
             WHITELISTED_DOMAINS"
    by (simp add: WHITELISTED_DOMAINS_def endsWith_def)
  have w: "whitelisted pf u"
    using assms(1) e
    by (simp add: whitelisted_def getDomain_def strip_www_def startsWith_def
        WHITELISTED_DOMAINS_def)
  show ?thesis
    using e n w assms(2,3)
    by (simp add: analyzeWithAI_resume_def record_status_quiet)
qed

theorem suffix_match_without_label_boundary_witness:
  "url_hostname demo_platform ''https://evilgoogle.com/login'' = Some ''evilgoogle.com'' \<and>
   analyzeWithAI_resume demo_platform 1000 1
       \<lparr>page_url = ''https://evilgoogle.com/login'', page_rest = JNull\<rparr> (Some ''k'') initial_state =
      (initial_state\<lparr>tabAnalysisResults := (tabAnalysisResults initial_state)
           (1 := Rec \<lparr>url = ''https://evilgoogle.com/login'', status = ''SAFE'',
              explanation = JStr ''This domain is on Trinetra's trusted whitelist.'',
              timestamp = 1000\<rparr>)\<rparr>,
       [UPDATE_POPUP_DATA \<lparr>url = ''https://evilgoogle.com/login'', status = ''SAFE'',
              explanation = JStr ''This domain is on Trinetra's trusted whitelist.'',
              timestamp = 1000\<rparr>])"
proof -
  have h: "url_hostname demo_platform ''https://evilgoogle.com/login'' = Some ''evilgoogle.com''"
    by (simp add: demo_platform_def demo_hostname_def startsWith_def)
  have k: "Some ''k'' = Some ''k''" and k': "''k'' \<noteq> []" by simp_all
  show ?thesis
    using h suffix_match_without_label_boundary [OF h k k', of 1000 1 JNull initial_state]
    by simp
qed

subsection \<open>The cache of the PAGE\_DATA handler\<close>

text \<open>
  C3, as the code has it. In a reachable state where tab \<open>T\<close> holds a record for the URL
  of the page data, a PAGE\_DATA message at \<open>d\<close> milliseconds after the record's timestamp
  reuses the record (it is sent to the popup, the state is unchanged and no analysis is
  started) when \<open>d\<close> is below the cache duration or when the URL is in
  \<open>sessionProceededUrls\<close>, whatever \<open>d\<close> is; otherwise a new call of \<open>analyzeWithAI\<close> is
  started.
\<close>

theorem cache_reuse:
  assumes "reachable pf s" and "tabAnalysisResults s T = Rec r" and "url r = page_url pageData"
  shows "step pf (timestamp r + d) (PAGE_DATA (Some T) pageData) s =
    (if d < ANALYSIS_CACHE_DURATION_MS \<or> page_url pageData \<in> sessionProceededUrls s
     then (s, [UPDATE_POPUP_DATA r,
               SendResponse (RespStatus ''Using cached/proceeded Trinetra result.'')])
     else (s\<lparr>pending := pending s @ [AwaitKey T pageData]\<rparr>,
           [StorageGet,
            SendResponse (RespStatus ''Trinetra analysis initiated with Gemini 1.5 Flash.'')]))"
proof -
  have "tabAnalysisResults s 0 = Absent"
    using assms(1) by (rule reachable_tab0)
  then have "T \<noteq> 0" using assms(2) by (cases "T = 0") simp_all
  then show ?thesis
    using assms(2,3) by (auto simp: handlePageData_def Let_def)
qed

lemma proceeded_visit_state:
  "run demo_platform proceeded_visit initial_state =
     initial_state\<lparr>sessionProceededUrls := {''https://example.org/''},
       tabAnalysisResults := (tabAnalysisResults initial_state)
        (1 := Rec \<lparr>url = ''https://example.org/'', status = ''SAFE'',
                    explanation = JStr ''You chose to proceed. Trinetra will trust this page for this session.'',
                    timestamp = 2000\<rparr>)\<rparr>"
  by (simp add: proceeded_visit_def visit_without_key_def handlePageData_def initial_state_def Let_def
      analyzeWithAI_resume_def record_status_quiet remove_nth_def page_def proceedAnyway_def)

text \<open>
  C3 as stated fails: after the user proceeded on the page of tab 1, the same page data
  arriving a full cache duration after the record's timestamp reuses the record, and no
  analysis is started.
\<close>

theorem override_outlives_cache_counterexample:
  "tabAnalysisResults (run demo_platform proceeded_visit initial_state) 1 =
     Rec \<lparr>url = ''https://example.org/'', status = ''SAFE'',
          explanation = JStr ''You chose to proceed. Trinetra will trust this page for this session.'',
          timestamp = 2000\<rparr> \<and>
   step demo_platform (2000 + ANALYSIS_CACHE_DURATION_MS)
       (PAGE_DATA (Some 1) (page ''https://example.org/''))
       (run demo_platform proceeded_visit initial_state) =
     (run demo_platform proceeded_visit initial_state,
      [UPDATE_POPUP_DATA \<lparr>url = ''https://example.org/'', status = ''SAFE'',
          explanation = JStr ''You chose to proceed. Trinetra will trust this page for this session.'',
          timestamp = 2000\<rparr>,
       SendResponse (RespStatus ''Using cached/proceeded Trinetra result.'')])"
  unfolding proceeded_visit_state
  by (simp add: initial_state_def handlePageData_def page_def Let_def)

theorem cache_reuse_witness:
  "reachable demo_platform (run demo_platform visit_without_key initial_state) \<and>
   step demo_platform (1001 + 179999) (PAGE_DATA (Some 1) (page ''https://example.org/''))
       (run demo_platform visit_without_key initial_state) =
     (run demo_platform visit_without_key initial_state,
      [UPDATE_POPUP_DATA \<lparr>url = ''https://example.org/'', status = ''ERROR'',
          explanation = JStr ''Gemini API key is missing. Please set it in the Trinetra popup.'',
          timestamp = 1001\<rparr>,
       SendResponse (RespStatus ''Using cached/proceeded Trinetra result.'')]) \<and>
   step demo_platform (1001 + 180000) (PAGE_DATA (Some 1) (page ''https://example.org/''))
       (run demo_platform visit_without_key initial_state) =
     ((run demo_platform visit_without_key initial_state)
        \<lparr>pending := [AwaitKey 1 (page ''https://example.org/'')]\<rparr>,
      [StorageGet,
       SendResponse (RespStatus ''Trinetra analysis initiated with Gemini 1.5 Flash.'')])"
proof -
  let ?s = "run demo_platform visit_without_key initial_state"
  let ?r = "\<lparr>url = ''https://example.org/'', status = ''ERROR'',
          explanation = JStr ''Gemini API key is missing. Please set it in the Trinetra popup.'',
          timestamp = 1001\<rparr>"
  have r: "reachable demo_platform ?s"
    by (rule reachable_run [OF reachable_initial])
  have t: "tabAnalysisResults ?s 1 = Rec ?r"
    unfolding visit_without_key_state by simp
  have u: "url ?r = page_url (page ''https://example.org/'')"
    by (simp add: page_def)
  have p: "pending ?s = []" and o: "sessionProceededUrls ?s = {}"
    unfolding visit_without_key_state by (simp_all add: initial_state_def)
  show ?thesis
    using r cache_reuse [OF r t u, of 179999] cache_reuse [OF r t u, of 180000] p o
    by (simp add: ANALYSIS_CACHE_DURATION_MS_def page_def)
qed

subsection \<open>The example platform and the example runs\<close>

lemma not_whitelisted_demo:
  "\<not> whitelisted demo_platform ''https://slow.example/''"
  "\<not> whitelisted demo_platform ''https://bank-login.example/''"
  by (simp_all add: whitelisted_def getDomain_def demo_platform_def demo_hostname_def
        startsWith_def strip_www_def WHITELISTED_DOMAINS_def endsWith_def)

lemma demo_fields [simp]:
  "json_parse demo_platform = demo_parse"
  "payload demo_platform pd = Some ''{}''"
  "type_error demo_platform = ''TypeError''"
  "toUpperCase demo_platform = demo_toUpperCase"
  "trim demo_platform = demo_trim"
  by (simp_all add: demo_platform_def)

lemma demo_parse_bodies:
  "demo_parse (demo_body dangerous_reply) = Some (gemini_envelope (JStr dangerous_reply))"
  "demo_parse (demo_body safe_reply) = Some (gemini_envelope (JStr safe_reply))"
  "demo_parse (demo_body weird_reply) = Some (gemini_envelope (JStr weird_reply))"
  "demo_parse (demo_body weird_empty_reply) = Some (gemini_envelope (JStr weird_empty_reply))"
  "demo_parse (demo_body no_status_reply) = Some (gemini_envelope (JStr no_status_reply))"
  "demo_parse (demo_body prose_reply) = Some (gemini_envelope (JStr prose_reply))"
  by (simp_all add: demo_parse_def demo_replies_def demo_body_def safe_reply_def
      dangerous_reply_def weird_reply_def weird_empty_reply_def no_status_reply_def prose_reply_def)

lemma demo_parse_replies:
  "demo_parse dangerous_reply =
     Some (JObj [(''status'', JStr ''dangerous''), (''explanation'', JStr ''mimics bank login'')])"
  "demo_parse safe_reply =
     Some (JObj [(''status'', JStr ''SAFE''), (''explanation'', JStr ''ordinary page'')])"
  "demo_parse weird_reply =
     Some (JObj [(''status'', JStr ''weird''), (''explanation'', JStr ''odd page'')])"
  "demo_parse weird_empty_reply =
     Some (JObj [(''status'', JStr ''weird''), (''explanation'', JStr [])])"
  "demo_parse no_status_reply = Some (JObj [(''explanation'', JStr ''looks fine'')])"
  "demo_parse prose_reply = None"
  by (simp_all add: demo_parse_def demo_replies_def demo_body_def safe_reply_def
      dangerous_reply_def weird_reply_def weird_empty_reply_def no_status_reply_def prose_reply_def)

lemma candidate_text_envelope:
  "truthy text \<Longrightarrow> candidate_text pf (gemini_envelope text) = Inr (Some text)"
  by (simp add: candidate_text_def gemini_envelope_def bind_js_def)

lemma reply_nonempty:
  "dangerous_reply \<noteq> []" "safe_reply \<noteq> []" "weird_reply \<noteq> []" "weird_empty_reply \<noteq> []"
  "no_status_reply \<noteq> []" "prose_reply \<noteq> []"
  by (simp_all add: safe_reply_def
      dangerous_reply_def weird_reply_def weird_empty_reply_def no_status_reply_def prose_reply_def)

lemma demo_verdicts:
  "response_verdict demo_platform (Response True ''OK'' (demo_body dangerous_reply)) =
     Inr (''DANGEROUS'', JStr ''mimics bank login'')"
  "response_verdict demo_platform (Response True ''OK'' (demo_body safe_reply)) =
     Inr (''SAFE'', JStr ''ordinary page'')"
  by (simp_all add: response_verdict_def ok_verdict_def demo_parse_bodies demo_parse_replies
      candidate_text_envelope reply_nonempty bind_js_def analysis_verdict_def
      recognized_explanation_def demo_trim_def demo_toUpperCase_def demo_upper_char_def
      demo_is_space_def Let_def)

lemma run_append: "run pf (xs @ ys) s = run pf ys (run pf xs s)"
  by (induction xs arbitrary: s) auto

lemma awaiting_reply_state:
  "run demo_platform awaiting_reply initial_state =
     initial_state\<lparr>apiKey := Some ''k'', pending := [AwaitFetch 1 old_page]\<rparr>"
  by (simp add: awaiting_reply_def old_page_def page_def initial_state_def
      handlePageData_def remove_nth_def analyzeWithAI_resume_def not_whitelisted_demo
      demo_trim_def demo_is_space_def)

lemma second_visit_state:
  "run demo_platform
     [(2000, TabUpdated 1 (Some ''complete'') (Some ''https://bank-login.example/'')),
      (2010, PAGE_DATA (Some 1) new_page),
      (2020, KeyResolved 1)]
     (initial_state\<lparr>apiKey := Some ''k'', pending := [AwaitFetch 1 old_page]\<rparr>) =
     initial_state\<lparr>apiKey := Some ''k'',
       pending := [AwaitFetch 1 old_page, AwaitFetch 1 new_page]\<rparr>"
  by (simp add: new_page_def page_def initial_state_def
      handlePageData_def remove_nth_def analyzeWithAI_resume_def not_whitelisted_demo
      onUpdated_def)

lemma second_reply_state:
  "run demo_platform
     [(2500, FetchResolved 1 (Response True ''OK'' (demo_body dangerous_reply)))]
     (initial_state\<lparr>apiKey := Some ''k'',
        pending := [AwaitFetch 1 old_page, AwaitFetch 1 new_page]\<rparr>) =
     initial_state\<lparr>apiKey := Some ''k'', pending := [AwaitFetch 1 old_page],
       tabAnalysisResults := (tabAnalysisResults initial_state)
        (1 := Rec \<lparr>url = ''https://bank-login.example/'', status = ''DANGEROUS'',
                    explanation = JStr ''mimics bank login'', timestamp = 2500\<rparr>)\<rparr>"
  by (simp add: new_page_def page_def initial_state_def remove_nth_def
      analyzeWithAI_response_def demo_verdicts updateTabStatus_def Let_def)

lemma navigated_away_state:
  "run demo_platform navigated_away initial_state =
     initial_state\<lparr>apiKey := Some ''k'', pending := [AwaitFetch 1 old_page],
       tabAnalysisResults := (tabAnalysisResults initial_state)
        (1 := Rec \<lparr>url = ''https://bank-login.example/'', status = ''DANGEROUS'',
                    explanation = JStr ''mimics bank login'', timestamp = 2500\<rparr>)\<rparr>"
proof -
  have e: "navigated_away =
     awaiting_reply @
     [(2000, TabUpdated 1 (Some ''complete'') (Some ''https://bank-login.example/'')),
      (2010, PAGE_DATA (Some 1) new_page), (2020, KeyResolved 1)] @
     [(2500, FetchResolved 1 (Response True ''OK'' (demo_body dangerous_reply)))]"
    by (simp add: navigated_away_def awaiting_reply_def)
  show ?thesis
    unfolding e run_append awaiting_reply_state second_visit_state second_reply_state
    by (rule refl)
qed

subsection \<open>A late response\<close>

text \<open>
  C2 as stated fails: tab 1 has navigated to a new page, whose record is DANGEROUS; the
  response to the request of the page it left arrives afterwards and overwrites that
  record with a SAFE verdict for the old URL.
\<close>

theorem late_response_overwrites_counterexample:
  "tabAnalysisResults (run demo_platform navigated_away initial_state) 1 =
     Rec \<lparr>url = ''https://bank-login.example/'', status = ''DANGEROUS'',
          explanation = JStr ''mimics bank login'', timestamp = 2500\<rparr> \<and>
   pending (run demo_platform navigated_away initial_state) ! 0 =
     AwaitFetch 1 (page ''https://slow.example/'') \<and>
   tabAnalysisResults
     (fst (step demo_platform 3000 (FetchResolved 0 (Response True ''OK'' (demo_body safe_reply)))
            (run demo_platform navigated_away initial_state))) 1 =
     Rec \<lparr>url = ''https://slow.example/'', status = ''SAFE'',
          explanation = JStr ''ordinary page'', timestamp = 3000\<rparr>"
  unfolding navigated_away_state
  by (simp add: initial_state_def old_page_def page_def remove_nth_def
      analyzeWithAI_response_def demo_verdicts updateTabStatus_def Let_def)

text \<open>
  C2, as the code has it. When the request of a suspended \<open>analyzeWithAI(pageData, tabId)\<close>
  resolves, whatever the outcome and whatever the tab's entry holds at that moment, the
  entry of \<open>tabId\<close> is overwritten by a record for the URL of that call, stamped with the
  current time; nothing is compared with the entry's URL and nothing else of the state
  changes, apart from the call no longer being pending.
\<close>

theorem response_applied_unconditionally:
  assumes "i < length (pending s)" and "pending s ! i = AwaitFetch tabId pageData"
  shows "\<exists>st ex. fst (step pf now (FetchResolved i outcome) s) =
     s\<lparr>pending := remove_nth i (pending s),
       tabAnalysisResults := (tabAnalysisResults s)
         (tabId := Rec \<lparr>url = page_url pageData, status = st, explanation = ex,
                         timestamp = now\<rparr>)\<rparr>"
proof -
  obtain st ex where
    "fst (analyzeWithAI_response pf now tabId pageData outcome (s\<lparr>pending := remove_nth i (pending s)\<rparr>)) =
       (s\<lparr>pending := remove_nth i (pending s)\<rparr>)\<lparr>tabAnalysisResults :=
          (tabAnalysisResults (s\<lparr>pending := remove_nth i (pending s)\<rparr>))
          (tabId := Rec \<lparr>url = page_url pageData, status = st, explanation = ex, timestamp = now\<rparr>)\<rparr>"
    using analyzeWithAI_response_state
      [of pf now tabId pageData outcome "s\<lparr>pending := remove_nth i (pending s)\<rparr>"]
    by blast
  then have "fst (step pf now (FetchResolved i outcome) s) =
     s\<lparr>pending := remove_nth i (pending s),
       tabAnalysisResults := (tabAnalysisResults s)
         (tabId := Rec \<lparr>url = page_url pageData, status = st, explanation = ex,
                         timestamp = now\<rparr>)\<rparr>"
    using assms by simp
  then show ?thesis by blast
qed

theorem response_applied_unconditionally_witness:
  "0 < length (pending (run demo_platform navigated_away initial_state)) \<and>
   pending (run demo_platform navigated_away initial_state) ! 0 = AwaitFetch 1 old_page \<and>
   tabAnalysisResults (run demo_platform navigated_away initial_state) 1 =
     Rec \<lparr>url = ''https://bank-login.example/'', status = ''DANGEROUS'',
          explanation = JStr ''mimics bank login'', timestamp = 2500\<rparr> \<and>
   (\<exists>st ex. tabAnalysisResults
      (fst (step demo_platform 3000 (FetchResolved 0 (Rejected ''Failed to fetch''))
             (run demo_platform navigated_away initial_state))) 1 =
      Rec \<lparr>url = ''https://slow.example/'', status = st, explanation = ex, timestamp = 3000\<rparr>)"
proof -
  let ?s = "run demo_platform navigated_away initial_state"
  have h1: "0 < length (pending ?s)" and h2: "pending ?s ! 0 = AwaitFetch 1 old_page"
    and h3: "tabAnalysisResults ?s 1 =
     Rec \<lparr>url = ''https://bank-login.example/'', status = ''DANGEROUS'',
          explanation = JStr ''mimics bank login'', timestamp = 2500\<rparr>"
    unfolding navigated_away_state by (simp_all add: initial_state_def)
  obtain st ex where
    "fst (step demo_platform 3000 (FetchResolved 0 (Rejected ''Failed to fetch'')) ?s) =
     ?s\<lparr>pending := remove_nth 0 (pending ?s),
       tabAnalysisResults := (tabAnalysisResults ?s)
         (1 := Rec \<lparr>url = page_url old_page, status = st, explanation = ex,
                         timestamp = 3000\<rparr>)\<rparr>"
    using response_applied_unconditionally [OF h1 h2, of demo_platform 3000 "Rejected ''Failed to fetch''"]
    by blast
  then have "tabAnalysisResults
      (fst (step demo_platform 3000 (FetchResolved 0 (Rejected ''Failed to fetch'')) ?s)) 1 =
      Rec \<lparr>url = ''https://slow.example/'', status = st, explanation = ex, timestamp = 3000\<rparr>"
    by (simp add: old_page_def page_def)
  then show ?thesis using h1 h2 h3 by blast
qed

subsection \<open>Validation of the classifier's reply\<close>

lemma get_prop_truthy:
  "truthy v \<Longrightarrow>
   get_prop pf k v =
     Inr (case v of
            JObj kvs \<Rightarrow> (case map_of kvs k of None \<Rightarrow> JUndef | Some x \<Rightarrow> x)
          | _ \<Rightarrow> JUndef)"
  by (cases v) simp_all

lemma candidate_text_defined:
  "candidate_text pf v = Inr t \<Longrightarrow> \<exists>x. get_prop pf k v = Inr x"
  by (cases v) (simp_all add: candidate_text_def bind_js_def)

lemma no_candidate_verdict:
  assumes "candidate_text pf resultJson = Inr None"
  shows "\<exists>e. e \<noteq> [] \<and>
    bind_js (get_prop pf ''promptFeedback'' resultJson) (\<lambda>fb.
      bind_js (if truthy fb then get_prop pf ''blockReason'' fb else Inr JUndef)
        (\<lambda>br.
          if truthy br
          then Inr (''ERROR'',
                    JStr (''Trinetra AI analysis blocked by content safety filter: ''
                           @ js_string pf br))
          else Inr (''ERROR'',
                    JStr ''Could not extract content from Trinetra AI response (unexpected structure).''))) =
    Inr (''ERROR'', JStr e)"
proof -
  obtain fb where fb: "get_prop pf ''promptFeedback'' resultJson = Inr fb"
    using candidate_text_defined [OF assms] by blast
  show ?thesis
  proof (cases "truthy fb")
    case False
    then show ?thesis using fb by (simp add: bind_js_def)
  next
    case True
    then show ?thesis using fb
      by (simp add: bind_js_def get_prop_truthy)
  qed
qed

lemma quiet_verdict_step:
  assumes "i < length (pending s)" and "pending s ! i = AwaitFetch tabId pageData"
    and "response_verdict pf outcome = Inr (st, ex)"
    and "st \<noteq> ''DANGEROUS''" and "st \<noteq> ''SUSPICIOUS''"
  shows "step pf now (FetchResolved i outcome) s =
     (s\<lparr>pending := remove_nth i (pending s),
        tabAnalysisResults := (tabAnalysisResults s)
          (tabId := Rec \<lparr>url = page_url pageData, status = st, explanation = ex,
                          timestamp = now\<rparr>)\<rparr>,
      [UPDATE_POPUP_DATA \<lparr>url = page_url pageData, status = st, explanation = ex,
                          timestamp = now\<rparr>])"
  using assms by (simp add: analyzeWithAI_response_def updateTabStatus_def Let_def)

lemma updateTabStatus_string:
  "snd (snd (updateTabStatus pf now tabId u st (JStr e) s)) = None"
  by (simp add: updateTabStatus_def Let_def)

lemma string_verdict_step:
  assumes "i < length (pending s)" and "pending s ! i = AwaitFetch tabId pageData"
    and "response_verdict pf outcome = Inr (st, JStr e)"
  shows "fst (step pf now (FetchResolved i outcome) s) =
     s\<lparr>pending := remove_nth i (pending s),
       tabAnalysisResults := (tabAnalysisResults s)
          (tabId := Rec \<lparr>url = page_url pageData, status = st, explanation = JStr e,
                          timestamp = now\<rparr>)\<rparr>"
proof -
  let ?s = "s\<lparr>pending := remove_nth i (pending s)\<rparr>"
  obtain s' effs thrown
    where u: "updateTabStatus pf now tabId (page_url pageData) st (JStr e) ?s = (s', effs, thrown)"
    by (cases "updateTabStatus pf now tabId (page_url pageData) st (JStr e) ?s")
  have "thrown = None"
    using updateTabStatus_string [of pf now tabId "page_url pageData" st e ?s] u by simp
  moreover have "s' = ?s\<lparr>tabAnalysisResults := (tabAnalysisResults ?s)
          (tabId := Rec \<lparr>url = page_url pageData, status = st, explanation = JStr e,
                          timestamp = now\<rparr>)\<rparr>"
    using updateTabStatus_state [of pf now tabId "page_url pageData" st "JStr e" ?s] u by simp
  ultimately show ?thesis
    using assms u by (simp add: analyzeWithAI_response_def)
qed

lemma recognized_explanation_string:
  "\<exists>e'. recognized_explanation pf (JObj kvs) (JStr e) = Inr (JStr e')"
  by (simp add: recognized_explanation_def bind_js_def Let_def)

text \<open>
  C5. Let the response be successful. If its body is not parseable JSON; or if it is
  and the text of the first part is a string that is not parseable JSON, or that parses
  to an object without a \<open>status\<close> or without an \<open>explanation\<close> property; or if there is
  no such text at all (as for an empty text): then the call records ERROR with a
  non-empty explanation (that the response was not valid JSON, the format error with
  the start of the text, or the incomplete-structure message), sends the record to the
  popup, raises no notification and completes.
\<close>

theorem invalid_reply_is_error:
  assumes "i < length (pending s)" and "pending s ! i = AwaitFetch tabId pageData"
    and "json_parse pf body = None \<or>
         (\<exists>resultJson. json_parse pf body = Some resultJson \<and>
            (candidate_text pf resultJson = Inr None \<or>
             (candidate_text pf resultJson = Inr (Some (JStr text)) \<and>
              (json_parse pf text = None \<or>
               (\<exists>kvs. json_parse pf text = Some (JObj kvs) \<and>
                  (map_of kvs ''status'' = None \<or> map_of kvs ''explanation'' = None))))))"
  shows "\<exists>e. e \<noteq> [] \<and>
     (json_parse pf body = None \<longrightarrow> e = ''Trinetra AI response was not valid JSON.'') \<and>
     (\<forall>resultJson. json_parse pf body = Some resultJson \<and>
          candidate_text pf resultJson = Inr (Some (JStr text)) \<longrightarrow>
        e = (if json_parse pf text = None
             then ''Trinetra AI response content format error. Details: ''
                    @ (if length text > 100 then take 97 text @ ''...'' else text)
             else ''Trinetra AI response structure incomplete.'')) \<and>
     step pf now (FetchResolved i (Response True statusText body)) s =
       (s\<lparr>pending := remove_nth i (pending s),
          tabAnalysisResults := (tabAnalysisResults s)
            (tabId := Rec \<lparr>url = page_url pageData, status = ''ERROR'', explanation = JStr e,
                            timestamp = now\<rparr>)\<rparr>,
        [UPDATE_POPUP_DATA \<lparr>url = page_url pageData, status = ''ERROR'', explanation = JStr e,
                            timestamp = now\<rparr>])"
proof -
  let ?fmt = "''Trinetra AI response content format error. Details: ''
                    @ (if length text > 100 then take 97 text @ ''...'' else text)"
  let ?inc = "''Trinetra AI response structure incomplete.''"
  let ?R = "\<lambda>e. step pf now (FetchResolved i (Response True statusText body)) s =
       (s\<lparr>pending := remove_nth i (pending s),
          tabAnalysisResults := (tabAnalysisResults s)
            (tabId := Rec \<lparr>url = page_url pageData, status = ''ERROR'', explanation = JStr e,
                            timestamp = now\<rparr>)\<rparr>,
        [UPDATE_POPUP_DATA \<lparr>url = page_url pageData, status = ''ERROR'', explanation = JStr e,
                            timestamp = now\<rparr>])"
  have R: "?R e" if "response_verdict pf (Response True statusText body) = Inr (''ERROR'', JStr e)"
    for e
    using quiet_verdict_step [OF assms(1,2) that, of now] by simp
  show ?thesis
  proof (cases "json_parse pf body")
    case None
    have "response_verdict pf (Response True statusText body) =
        Inr (''ERROR'', JStr ''Trinetra AI response was not valid JSON.'')"
      using None by (simp add: response_verdict_def ok_verdict_def)
    then have "?R ''Trinetra AI response was not valid JSON.''" by (rule R)
    then show ?thesis using None
      by (intro exI [of _ "''Trinetra AI response was not valid JSON.''"]) simp
  next
    case (Some resultJson)
    then have alt: "candidate_text pf resultJson = Inr None \<or>
             (candidate_text pf resultJson = Inr (Some (JStr text)) \<and>
              (json_parse pf text = None \<or>
               (\<exists>kvs. json_parse pf text = Some (JObj kvs) \<and>
                  (map_of kvs ''status'' = None \<or> map_of kvs ''explanation'' = None))))"
      using assms(3) by simp
    show ?thesis
    proof (cases "candidate_text pf resultJson = Inr None")
      case True
      obtain e where e: "e \<noteq> []"
        and v: "response_verdict pf (Response True statusText body) = Inr (''ERROR'', JStr e)"
        using no_candidate_verdict [OF True] Some True
        by (auto simp: response_verdict_def ok_verdict_def bind_js_def)
      have "?R e" using v by (rule R)
      then show ?thesis using e Some True
        by (intro exI [of _ e]) simp
    next
      case False
      then have c: "candidate_text pf resultJson = Inr (Some (JStr text))"
        and bad: "json_parse pf text = None \<or>
             (\<exists>kvs. json_parse pf text = Some (JObj kvs) \<and>
                    (map_of kvs ''status'' = None \<or> map_of kvs ''explanation'' = None))"
        using alt by simp_all
      show ?thesis
      proof (cases "json_parse pf text")
        case None
        have "response_verdict pf (Response True statusText body) = Inr (''ERROR'', JStr ?fmt)"
          using None c Some
          by (simp add: response_verdict_def ok_verdict_def bind_js_def analysis_verdict_def)
        then have "?R ?fmt" by (rule R)
        then show ?thesis using None c Some
          by (intro exI [of _ ?fmt]) simp
      next
        case inner: (Some a)
        then obtain kvs where a: "a = JObj kvs"
          and m: "map_of kvs ''status'' = None \<or> map_of kvs ''explanation'' = None"
          using bad by auto
        have "analysis_verdict pf (JStr text) = incomplete"
          using inner a m
          by (auto simp: analysis_verdict_def bind_js_def get_prop_truthy
              split: json.splits option.splits)
        then have "response_verdict pf (Response True statusText body) = Inr (''ERROR'', JStr ?inc)"
          using c Some
          by (simp add: response_verdict_def ok_verdict_def bind_js_def incomplete_def)
        then have "?R ?inc" by (rule R)
        then show ?thesis using inner c Some
          by (intro exI [of _ ?inc]) simp
      qed
    qed
  qed
qed

theorem invalid_reply_is_error_witness:
  "pending (run demo_platform awaiting_reply initial_state) ! 0 = AwaitFetch 1 old_page \<and>
   json_parse demo_platform prose_reply = None \<and>
   step demo_platform 1500 (FetchResolved 0 (Response True ''OK'' (demo_body prose_reply)))
       (run demo_platform awaiting_reply initial_state) =
     ((run demo_platform awaiting_reply initial_state)
        \<lparr>pending := [],
         tabAnalysisResults :=
           (tabAnalysisResults (run demo_platform awaiting_reply initial_state))
           (1 := Rec \<lparr>url = ''https://slow.example/'', status = ''ERROR'',
              explanation =
                JStr (''Trinetra AI response content format error. Details: '' @ prose_reply),
              timestamp = 1500\<rparr>)\<rparr>,
      [UPDATE_POPUP_DATA \<lparr>url = ''https://slow.example/'', status = ''ERROR'',
              explanation =
                JStr (''Trinetra AI response content format error. Details: '' @ prose_reply),
              timestamp = 1500\<rparr>]) \<and>
   json_parse demo_platform no_status_reply = Some (JObj [(''explanation'', JStr ''looks fine'')]) \<and>
   step demo_platform 1500 (FetchResolved 0 (Response True ''OK'' (demo_body no_status_reply)))
       (run demo_platform awaiting_reply initial_state) =
     ((run demo_platform awaiting_reply initial_state)
        \<lparr>pending := [],
         tabAnalysisResults :=
           (tabAnalysisResults (run demo_platform awaiting_reply initial_state))
           (1 := Rec \<lparr>url = ''https://slow.example/'', status = ''ERROR'',
              explanation = JStr ''Trinetra AI response structure incomplete.'',
              timestamp = 1500\<rparr>)\<rparr>,
      [UPDATE_POPUP_DATA \<lparr>url = ''https://slow.example/'', status = ''ERROR'',
              explanation = JStr ''Trinetra AI response structure incomplete.'',
              timestamp = 1500\<rparr>]) \<and>
   step demo_platform 1500 (FetchResolved 0 (Response True ''OK'' prose_reply))
       (run demo_platform awaiting_reply initial_state) =
     ((run demo_platform awaiting_reply initial_state)
        \<lparr>pending := [],
         tabAnalysisResults :=
           (tabAnalysisResults (run demo_platform awaiting_reply initial_state))
           (1 := Rec \<lparr>url = ''https://slow.example/'', status = ''ERROR'',
              explanation = JStr ''Trinetra AI response was not valid JSON.'',
              timestamp = 1500\<rparr>)\<rparr>,
      [UPDATE_POPUP_DATA \<lparr>url = ''https://slow.example/'', status = ''ERROR'',
              explanation = JStr ''Trinetra AI response was not valid JSON.'',
              timestamp = 1500\<rparr>])"
proof -
  let ?s = "run demo_platform awaiting_reply initial_state"
  let ?bad = "\<lambda>body text. json_parse demo_platform body = None \<or>
         (\<exists>resultJson. json_parse demo_platform body = Some resultJson \<and>
            (candidate_text demo_platform resultJson = Inr None \<or>
             (candidate_text demo_platform resultJson = Inr (Some (JStr text)) \<and>
              (json_parse demo_platform text = None \<or>
               (\<exists>kvs. json_parse demo_platform text = Some (JObj kvs) \<and>
                  (map_of kvs ''status'' = None \<or> map_of kvs ''explanation'' = None))))))"
  have h1: "0 < length (pending ?s)" and h2: "pending ?s ! 0 = AwaitFetch 1 old_page"
    unfolding awaiting_reply_state by (simp_all add: initial_state_def)
  have b: "json_parse demo_platform (demo_body prose_reply) =
      Some (gemini_envelope (JStr prose_reply))"
    and b': "json_parse demo_platform (demo_body no_status_reply) =
      Some (gemini_envelope (JStr no_status_reply))"
    by (simp_all add: demo_parse_bodies)
  have n: "json_parse demo_platform prose_reply = None"
    and n': "json_parse demo_platform no_status_reply =
      Some (JObj [(''explanation'', JStr ''looks fine'')])"
    by (simp_all add: demo_parse_replies)
  have c: "candidate_text demo_platform (gemini_envelope (JStr prose_reply)) =
      Inr (Some (JStr prose_reply))"
    and c': "candidate_text demo_platform (gemini_envelope (JStr no_status_reply)) =
      Inr (Some (JStr no_status_reply))"
    by (simp_all add: candidate_text_envelope reply_nonempty)
  have h3: "?bad (demo_body prose_reply) prose_reply"
    using b c n by simp
  have h3': "?bad (demo_body no_status_reply) no_status_reply"
    using b' c' n' by simp
  have h3'': "?bad prose_reply prose_reply"
    using n by simp
  have l: "\<not> length prose_reply > 100"
    by (simp add: prose_reply_def)
  have "step demo_platform 1500 (FetchResolved 0 (Response True ''OK'' (demo_body prose_reply))) ?s =
     (?s\<lparr>pending := [],
         tabAnalysisResults := (tabAnalysisResults ?s)
           (1 := Rec \<lparr>url = ''https://slow.example/'', status = ''ERROR'',
              explanation =
                JStr (''Trinetra AI response content format error. Details: '' @ prose_reply),
              timestamp = 1500\<rparr>)\<rparr>,
      [UPDATE_POPUP_DATA \<lparr>url = ''https://slow.example/'', status = ''ERROR'',
              explanation =
                JStr (''Trinetra AI response content format error. Details: '' @ prose_reply),
              timestamp = 1500\<rparr>])"
    using invalid_reply_is_error [OF h1 h2 h3, of 1500 "''OK''"] b n c l
    unfolding awaiting_reply_state
    by (auto simp: remove_nth_def old_page_def page_def)
  moreover have "step demo_platform 1500
       (FetchResolved 0 (Response True ''OK'' (demo_body no_status_reply))) ?s =
     (?s\<lparr>pending := [],
         tabAnalysisResults := (tabAnalysisResults ?s)
           (1 := Rec \<lparr>url = ''https://slow.example/'', status = ''ERROR'',
              explanation = JStr ''Trinetra AI response structure incomplete.'',
              timestamp = 1500\<rparr>)\<rparr>,
      [UPDATE_POPUP_DATA \<lparr>url = ''https://slow.example/'', status = ''ERROR'',
              explanation = JStr ''Trinetra AI response structure incomplete.'',
              timestamp = 1500\<rparr>])"
    using invalid_reply_is_error [OF h1 h2 h3', of 1500 "''OK''"] b' n' c'
    unfolding awaiting_reply_state
    by (auto simp: remove_nth_def old_page_def page_def)
  moreover have "step demo_platform 1500
       (FetchResolved 0 (Response True ''OK'' prose_reply)) ?s =
     (?s\<lparr>pending := [],
         tabAnalysisResults := (tabAnalysisResults ?s)
           (1 := Rec \<lparr>url = ''https://slow.example/'', status = ''ERROR'',
              explanation = JStr ''Trinetra AI response was not valid JSON.'',
              timestamp = 1500\<rparr>)\<rparr>,
      [UPDATE_POPUP_DATA \<lparr>url = ''https://slow.example/'', status = ''ERROR'',
              explanation = JStr ''Trinetra AI response was not valid JSON.'',
              timestamp = 1500\<rparr>])"
    using invalid_reply_is_error [OF h1 h2 h3'', of 1500 "''OK''"] n
    unfolding awaiting_reply_state
    by (auto simp: remove_nth_def old_page_def page_def)
  ultimately show ?thesis using h2 n n' by blast
qed

lemma falsy_field_is_incomplete:
  assumes "json_parse pf text = Some (JObj kvs)"
    and "map_of kvs ''status'' = Some st" and "map_of kvs ''explanation'' = Some ex"
    and "\<not> truthy st \<or> \<not> truthy ex"
  shows "analysis_verdict pf (JStr text) = incomplete"
proof (cases "truthy st")
  case False
  then show ?thesis
    using assms(1,2) by (simp add: analysis_verdict_def bind_js_def)
next
  case True
  then have "\<not> truthy ex" using assms(4) by simp
  then show ?thesis
    using True assms(1,2,3) by (simp add: analysis_verdict_def bind_js_def)
qed




subsection \<open>The invariant of the result store\<close>

lemma store_inv_update:
  "store_inv s \<Longrightarrow> slot_ok e \<Longrightarrow>
   store_inv (s\<lparr>tabAnalysisResults := (tabAnalysisResults s)(t := e)\<rparr>)"
  by (simp add: store_inv_def)

lemma store_inv_pending:
  "store_inv (s\<lparr>pending := p\<rparr>) = store_inv s"
  by (simp add: store_inv_def)

lemma resume_store_inv:
  "store_inv s \<Longrightarrow> store_inv (fst (analyzeWithAI_resume pf now tabId pd key s))"
  by (auto simp: analyzeWithAI_resume_def record_status_state store_inv_def slot_ok_def
      valid_status_def split: option.splits sum.splits if_splits)

lemma response_store_inv:
  assumes "store_inv s"
  shows "store_inv (fst (analyzeWithAI_response pf now tabId pd outcome s))"
proof -
  obtain st ex where a: "fst (analyzeWithAI_response pf now tabId pd outcome s) =
     s\<lparr>tabAnalysisResults := (tabAnalysisResults s)
          (tabId := Rec \<lparr>url = page_url pd, status = st, explanation = ex, timestamp = now\<rparr>)\<rparr>"
    and b: "st = ''ERROR'' \<or> (\<exists>e. response_verdict pf outcome = Inr (st, e))"
    using analyzeWithAI_response_state [of pf now tabId pd outcome s] by blast
  have "valid_status st"
    using b response_verdict_status [of pf outcome st] by (auto simp: valid_status_def)
  then show ?thesis
    using a assms by (simp add: store_inv_update slot_ok_def)
qed

lemma step_store_inv:
  assumes inv: "store_inv s"
  shows "store_inv (fst (step pf now ev s))"
proof (cases ev)
  case (PAGE_DATA sender pd)
  then show ?thesis using inv
    by (auto simp: store_inv_def handlePageData_def Let_def split: option.splits slot.splits)
next
  case (GET_TAB_STATUS t)
  then show ?thesis using inv by simp
next
  case (GO_BACK_TAB t)
  then show ?thesis using inv by (simp split: option.splits)
next
  case (PROCEED_ANYWAY t)
  then show ?thesis using inv
    by (auto simp: store_inv_def slot_ok_def valid_status_def proceedAnyway_def Let_def
        record_status_quiet split: option.splits slot.splits if_splits)
next
  case (TabUpdated t c u)
  then show ?thesis using inv
    by (auto simp: store_inv_def slot_ok_def onUpdated_def split: option.splits slot.splits)
next
  case (TabRemoved t)
  then show ?thesis using inv by (simp add: store_inv_def slot_ok_def onRemoved_def)
next
  case (KeyResolved i)
  then show ?thesis using inv
    by (auto simp: resume_store_inv store_inv_pending split: task.splits)
next
  case (FetchResolved i outcome)
  then show ?thesis using inv
    by (auto simp: response_store_inv store_inv_pending split: task.splits)
next
  case (SaveKey k)
  then show ?thesis using inv by (simp add: store_inv_def Let_def)
next
  case ClearKey
  then show ?thesis using inv by (simp add: store_inv_def)
qed

lemma navigated_away_store_inv: "store_inv (run demo_platform navigated_away initial_state)"
  unfolding navigated_away_state
  by (simp add: store_inv_def slot_ok_def valid_status_def initial_state_def)



end
